theory Spec2Isabelle
  imports Main "HOL-Library.AList" "HOL-Library.Sublist"
begin

section \<open>JavaScript values\<close>

text \<open>
  The values \<^verbatim>\<open>JSON.parse\<close> produces. An object is the list of its own properties in
  property order. The code never computes with a number; it only tests one for being
  zero (truthiness), so the payload of \<open>JNum\<close> is an integer.
\<close>

datatype jsval =
    JNull
  | JBool bool
  | JNum int
  | JStr string
  | JArr "jsval list"
  | JObj "(string \<times> jsval) list"

text \<open>JavaScript truthiness (\<^verbatim>\<open>!v\<close> is its negation).\<close>

fun truthy :: "jsval \<Rightarrow> bool" where
  "truthy JNull = False"
| "truthy (JBool b) = b"
| "truthy (JNum n) = (n \<noteq> 0)"
| "truthy (JStr s) = (s \<noteq> [])"
| "truthy (JArr _) = True"
| "truthy (JObj _) = True"

text \<open>
  A field of a request body or of the environment that is a string when present:
  \<^verbatim>\<open>!v\<close> holds when it is absent (\<^verbatim>\<open>undefined\<close>) or the empty string.
\<close>

definition falsy :: "string option \<Rightarrow> bool" where
  "falsy v = (case v of None \<Rightarrow> True | Some s \<Rightarrow> s = [])"

text \<open>\<^verbatim>\<open>n.toString()\<close> of a non-negative integer (a clock reading): its decimal digits.\<close>

definition digit_char :: "nat \<Rightarrow> char" where
  "digit_char d = ''0123456789'' ! d"

fun js_toString :: "nat \<Rightarrow> string" where
  "js_toString n =
     (if n < 10 then [digit_char n] else js_toString (n div 10) @ [digit_char (n mod 10)])"

declare js_toString.simps [simp del]

text \<open>The number a string of decimal digits denotes.\<close>

definition digit_of :: "char \<Rightarrow> nat" where
  "digit_of c = length (takeWhile (\<lambda>x. x \<noteq> c) ''0123456789'')"

definition digits_value :: "string \<Rightarrow> nat" where
  "digits_value s = foldl (\<lambda>a c. 10 * a + digit_of c) 0 s"

definition all_digits :: "string \<Rightarrow> bool" where
  "all_digits s = list_all (\<lambda>c. c \<in> set ''0123456789'') s"

text \<open>
  \<^verbatim>\<open>xs.slice(start)\<close>: a negative start counts from the end, and the start is clamped
  to the array.
\<close>

definition js_slice_from :: "int \<Rightarrow> 'a list \<Rightarrow> 'a list" where
  "js_slice_from start xs =
     (let len = int (length xs);
          k = (if start < 0 then max (len + start) 0 else min start len)
      in drop (nat k) xs)"

section \<open>HTTP responses\<close>

type_synonym session = "(string \<times> jsval) list"

text \<open>
  What \<^verbatim>\<open>readARSessions\<close> returns: the array of the document, or a value that is not an
  array (the document's \<^verbatim>\<open>sessions\<close> field is truthy and no array).
\<close>

datatype sessions_value = Arr "session list" | NotArr

text \<open>A loved one's profile, as \<^verbatim>\<open>app.post('/api/loved-ones')\<close> builds it.\<close>

record profile =
  profile_id :: string
  name :: string
  description :: string
  relationship :: string
  photos :: "string list"
  createdAt :: string

text \<open>
  The JSON bodies the handlers send: \<^verbatim>\<open>{error}\<close>, \<^verbatim>\<open>{success, message, totalSessions}\<close>,
  \<^verbatim>\<open>{success, sessions, totalSessions}\<close>, \<^verbatim>\<open>{success, message}\<close>, \<^verbatim>\<open>{success, lovedOne}\<close>
  with a profile, the same with a member of \<^verbatim>\<open>Object.prototype\<close> as \<^verbatim>\<open>lovedOne\<close>, and
  \<^verbatim>\<open>{success, imageUrl, revisedPrompt, lovedOneName}\<close>.
\<close>

datatype body =
    ErrorBody string
  | SavedBody nat
  | SessionsBody sessions_value
  | MessageBody string
  | ProfileBody profile
  | InheritedBody string
  | ImageBody "string option" "string option" "string option"

text \<open>
  \<open>Response status body\<close> is \<^verbatim>\<open>res.status(status).json(body)\<close>; \<^verbatim>\<open>res.json\<close> alone has
  status 200. \<open>Unhandled e\<close>: the handler sent nothing, because exception \<open>e\<close> left it
  (or the middleware before it ended the request with it); the framework's error
  handling answers instead.
\<close>

datatype response = Response nat body | Unhandled string

section \<open>AR session log\<close>

text \<open>
  The backing file \<^verbatim>\<open>ar-sessions/sessions.json\<close> as \<^verbatim>\<open>readARSessions\<close> can see it:
  \<^item> \<open>NoDocument\<close>: the file is absent, is not JSON, or is JSON whose \<^verbatim>\<open>sessions\<close> field is
    absent or falsy (or reading it throws): the read ends in \<^verbatim>\<open>[]\<close>;
  \<^item> \<open>Foreign\<close>: JSON whose \<^verbatim>\<open>sessions\<close> field is truthy and not an array;
  \<^item> \<open>Document ss\<close>: \<^verbatim>\<open>{sessions: ss}\<close>, what \<^verbatim>\<open>writeARSessions\<close> writes.
\<close>

datatype ar_file = NoDocument | Foreign | Document "session list"

text \<open>
  How \<^verbatim>\<open>fs.writeFileSync\<close> ends: it wrote the document; it threw and left the file as it
  was (the open failed); or it threw after truncating the file.
\<close>

datatype write_outcome = Written | FailedUntouched | FailedTruncated

text \<open>The I/O outcomes of one request: does \<^verbatim>\<open>fs.readFileSync\<close> throw, and how the write ends.\<close>

record io_env =
  read_fails :: bool
  write_result :: write_outcome

definition readARSessions :: "bool \<Rightarrow> ar_file \<Rightarrow> sessions_value" where
  "readARSessions fails f =
     (if fails then Arr []
      else case f of
             NoDocument \<Rightarrow> Arr []
           | Foreign \<Rightarrow> NotArr
           | Document ss \<Rightarrow> Arr ss)"

definition writeARSessions :: "write_outcome \<Rightarrow> session list \<Rightarrow> ar_file \<Rightarrow> bool \<times> ar_file" where
  "writeARSessions w sessions f =
     (case w of
        Written \<Rightarrow> (True, Document sessions)
      | FailedUntouched \<Rightarrow> (False, f)
      | FailedTruncated \<Rightarrow> (False, NoDocument))"

text \<open>
  \<^verbatim>\<open>!sessionData || !sessionData.sessionId\<close>; the parsed body is an object, so truthy (an
  array has no \<^verbatim>\<open>sessionId\<close> and is refused like an object without one).
\<close>

definition invalid_session :: "session \<Rightarrow> bool" where
  "invalid_session sessionData =
     (case map_of sessionData ''sessionId'' of
        None \<Rightarrow> True
      | Some v \<Rightarrow> \<not> truthy v)"

text \<open>\<^verbatim>\<open>{...sessionData, savedAt: new Date().toISOString()}\<close>\<close>

definition stamp :: "string \<Rightarrow> session \<Rightarrow> session" where
  "stamp now sessionData = AList.update ''savedAt'' (JStr now) sessionData"

text \<open>
  \<^verbatim>\<open>app.post('/api/ar/session')\<close>. \<open>now\<close> is the clock's ISO string. A \<^verbatim>\<open>sessions\<close> value
  that is no array has no \<^verbatim>\<open>push\<close>: the call throws, and the handler's \<^verbatim>\<open>catch\<close> answers 500.
\<close>

definition post_ar_session :: "io_env \<Rightarrow> string \<Rightarrow> session \<Rightarrow> ar_file \<Rightarrow> response \<times> ar_file" where
  "post_ar_session io now sessionData f =
     (if invalid_session sessionData
      then (Response 400 (ErrorBody ''Invalid session data''), f)
      else case readARSessions (read_fails io) f of
             NotArr \<Rightarrow> (Response 500 (ErrorBody ''Internal server error''), f)
           | Arr sessions \<Rightarrow>
               (let pushed = sessions @ [stamp now sessionData];
                    limitedSessions = js_slice_from (- 1000) pushed;
                    (success, f') = writeARSessions (write_result io) limitedSessions f
                in if success
                   then (Response 200 (SavedBody (length limitedSessions)), f')
                   else (Response 500 (ErrorBody ''Failed to save session''), f')))"

text \<open>\<^verbatim>\<open>app.get('/api/ar/sessions')\<close>\<close>

definition get_ar_sessions :: "io_env \<Rightarrow> ar_file \<Rightarrow> response" where
  "get_ar_sessions io f = Response 200 (SessionsBody (readARSessions (read_fails io) f))"

text \<open>\<^verbatim>\<open>app.delete('/api/ar/sessions')\<close>\<close>

definition delete_ar_sessions :: "io_env \<Rightarrow> ar_file \<Rightarrow> response \<times> ar_file" where
  "delete_ar_sessions io f =
     (let (success, f') = writeARSessions (write_result io) [] f
      in if success
         then (Response 200 (MessageBody ''All sessions cleared''), f')
         else (Response 500 (ErrorBody ''Failed to clear sessions''), f'))"

text \<open>Requests handled one after the other, each with its own I/O outcomes and clock.\<close>

fun run_appends :: "(io_env \<times> string \<times> session) list \<Rightarrow> ar_file \<Rightarrow> ar_file" where
  "run_appends [] f = f"
| "run_appends ((io, now, sessionData) # rest) f =
     run_appends rest (snd (post_ar_session io now sessionData f))"

text \<open>The persisted collection, and the bound on it.\<close>

definition stored :: "ar_file \<Rightarrow> session list" where
  "stored f = (case f of Document ss \<Rightarrow> ss | _ \<Rightarrow> [])"

definition bounded :: "ar_file \<Rightarrow> bool" where
  "bounded f = (length (stored f) \<le> 1000)"

text \<open>A request with a valid body whose read and write both work.\<close>

definition clean :: "io_env \<times> string \<times> session \<Rightarrow> bool" where
  "clean r = (case r of (io, now, sessionData) \<Rightarrow>
      \<not> read_fails io \<and> write_result io = Written \<and> \<not> invalid_session sessionData)"

definition stamped :: "io_env \<times> string \<times> session \<Rightarrow> session" where
  "stamped r = (case r of (io, now, sessionData) \<Rightarrow> stamp now sessionData)"

section \<open>Profile store\<close>

text \<open>
  \<^verbatim>\<open>let lovedOnes = {}\<close> is a plain object: its own properties are the stored profiles,
  and a read \<^verbatim>\<open>lovedOnes[k]\<close> of a key that is no own property goes on to the object's
  prototype, \<^verbatim>\<open>Object.prototype\<close>, whose members are these.
\<close>

definition object_prototype_keys :: "string list" where
  "object_prototype_keys =
     [''constructor'', ''__proto__'', ''hasOwnProperty'', ''isPrototypeOf'',
      ''propertyIsEnumerable'', ''toLocaleString'', ''toString'', ''valueOf'',
      ''__defineGetter__'', ''__defineSetter__'', ''__lookupGetter__'', ''__lookupSetter__'']"

text \<open>
  The result of \<^verbatim>\<open>lovedOnes[k]\<close>: \<^verbatim>\<open>undefined\<close>, a stored profile, or the member of
  \<^verbatim>\<open>Object.prototype\<close> named \<open>k\<close> (a function, or for \<^verbatim>\<open>__proto__\<close> the prototype
  itself: truthy in every case).
\<close>

datatype lookup = Undefined | Own profile | Inherited string

definition get_prop :: "(string \<rightharpoonup> profile) \<Rightarrow> string \<Rightarrow> lookup" where
  "get_prop obj k =
     (case obj k of
        Some p \<Rightarrow> Own p
      | None \<Rightarrow> if k \<in> set object_prototype_keys then Inherited k else Undefined)"

text \<open>
  The \<^verbatim>\<open>name\<close> property of a member of \<^verbatim>\<open>Object.prototype\<close>: a function's name, and
  \<^verbatim>\<open>undefined\<close> for \<^verbatim>\<open>__proto__\<close>. Its \<^verbatim>\<open>description\<close>, \<^verbatim>\<open>relationship\<close> and \<^verbatim>\<open>photos\<close> are
  \<^verbatim>\<open>undefined\<close>.
\<close>

definition inherited_name :: "string \<Rightarrow> string option" where
  "inherited_name k =
     (if k = ''__proto__'' then None
      else if k = ''constructor'' then Some ''Object''
      else Some k)"

text \<open>
  The server's state: the profile map, and the files under the server's directory, each
  by its path from there (\<^verbatim>\<open>/uploads/<filename>\<close>). Paths are taken as written.
\<close>

record server_state =
  lovedOnes :: "string \<rightharpoonup> profile"
  disk :: "string set"

text \<open>The state at start: \<^verbatim>\<open>let lovedOnes = {}\<close>, and no uploaded file.\<close>

definition no_profiles :: server_state where
  "no_profiles = \<lparr>lovedOnes = Map.empty, disk = {}\<rparr>"

text \<open>The text fields of the body of \<^verbatim>\<open>POST /api/loved-ones\<close>, each a string when present.\<close>

record create_body =
  body_name :: "string option"
  body_description :: "string option"
  body_relationship :: "string option"

text \<open>
  A file the upload middleware accepted, with what the \<^verbatim>\<open>filename\<close> callback reads for
  it: \<^verbatim>\<open>Date.now()\<close>, \<^verbatim>\<open>Math.round(Math.random() * 1E9)\<close> and
  \<^verbatim>\<open>path.extname(file.originalname)\<close>.
\<close>

record upload_file =
  up_now :: nat
  up_rnd :: nat
  up_ext :: string

definition filename_cb :: "upload_file \<Rightarrow> string" where
  "filename_cb file =
     (let uniqueSuffix = js_toString (up_now file) @ ''-'' @ js_toString (up_rnd file)
      in uniqueSuffix @ up_ext file)"

text \<open>
  How \<^verbatim>\<open>upload.array('photos', 10)\<close> ends, before the handler runs:
  \<^item> \<open>NotMultipart\<close>: the request is no multipart form; the middleware passes it on and
    \<^verbatim>\<open>req.files\<close> stays \<^verbatim>\<open>undefined\<close>;
  \<^item> \<open>Rejected\<close>: a file failed \<^verbatim>\<open>fileFilter\<close> or a limit; the middleware removes what it
    stored and ends the request with the error, and the handler does not run;
  \<^item> \<open>Stored files\<close>: every file was accepted and written to the uploads directory (the
    disk storage of the configuration) under the name \<^verbatim>\<open>filename\<close> gave it;
    \<^verbatim>\<open>req.files\<close> lists them (an empty list when the form has no file).
\<close>

datatype upload_outcome = NotMultipart | Rejected | Stored "upload_file list"

definition uploads_path :: "string \<Rightarrow> string" where
  "uploads_path filename = ''/uploads/'' @ filename"

text \<open>
  The handler of \<^verbatim>\<open>app.post('/api/loved-ones')\<close>. \<open>now_ms\<close> is \<^verbatim>\<open>Date.now()\<close>, \<open>now_iso\<close> is
  \<^verbatim>\<open>new Date().toISOString()\<close>, \<open>files\<close> is \<^verbatim>\<open>req.files\<close> (the stored files' names).
\<close>

definition create_handler ::
  "nat \<Rightarrow> string \<Rightarrow> create_body \<Rightarrow> string list option \<Rightarrow> server_state \<Rightarrow> response \<times> server_state" where
  "create_handler now_ms now_iso b files st =
     (if falsy (body_name b) \<or> falsy (body_description b)
      then (Response 400 (ErrorBody ''Name and description are required''), st)
      else case files of
             None \<Rightarrow> (Response 400 (ErrorBody ''At least one photo is required''), st)
           | Some [] \<Rightarrow> (Response 400 (ErrorBody ''At least one photo is required''), st)
           | Some fs \<Rightarrow>
               (let lovedOneId = js_toString now_ms;
                    entry = \<lparr> profile_id = lovedOneId,
                              name = (case body_name b of Some n \<Rightarrow> n | None \<Rightarrow> []),
                              description = (case body_description b of Some d \<Rightarrow> d | None \<Rightarrow> []),
                              relationship = (case body_relationship b of Some r \<Rightarrow> r | None \<Rightarrow> []),
                              photos = map uploads_path fs,
                              createdAt = now_iso \<rparr>
                in (Response 200 (ProfileBody entry),
                    st\<lparr>lovedOnes := (lovedOnes st)(lovedOneId \<mapsto> entry)\<rparr>)))"

text \<open>The whole route: the upload middleware, then the handler.\<close>

definition post_loved_ones ::
  "nat \<Rightarrow> string \<Rightarrow> create_body \<Rightarrow> upload_outcome \<Rightarrow> server_state \<Rightarrow> response \<times> server_state" where
  "post_loved_ones now_ms now_iso b up st =
     (case up of
        Rejected \<Rightarrow> (Unhandled ''upload error'', st)
      | NotMultipart \<Rightarrow> create_handler now_ms now_iso b None st
      | Stored files \<Rightarrow>
          (let names = map filename_cb files;
               st1 = st\<lparr>disk := disk st \<union> set (map uploads_path names)\<rparr>
           in create_handler now_ms now_iso b (Some names) st1))"

text \<open>\<^verbatim>\<open>app.get('/api/loved-ones/:id')\<close>\<close>

definition get_loved_one :: "string \<Rightarrow> server_state \<Rightarrow> response" where
  "get_loved_one k st =
     (case get_prop (lovedOnes st) k of
        Undefined \<Rightarrow> Response 404 (ErrorBody ''Loved one not found'')
      | Own p \<Rightarrow> Response 200 (ProfileBody p)
      | Inherited m \<Rightarrow> Response 200 (InheritedBody m))"

text \<open>
  \<^verbatim>\<open>lovedOne.photos.forEach(...)\<close>: each photo's file is unlinked if it exists.
\<close>

fun delete_photos :: "string list \<Rightarrow> string set \<Rightarrow> string set" where
  "delete_photos [] d = d"
| "delete_photos (photoPath # rest) d =
     delete_photos rest (if photoPath \<in> d then d - {photoPath} else d)"

text \<open>
  \<^verbatim>\<open>app.delete('/api/loved-ones/:id')\<close>. The handler has no \<^verbatim>\<open>try\<close>: for a member of
  \<^verbatim>\<open>Object.prototype\<close>, \<^verbatim>\<open>lovedOne.photos\<close> is \<^verbatim>\<open>undefined\<close> and \<^verbatim>\<open>forEach\<close> on it
  throws a \<^verbatim>\<open>TypeError\<close> that leaves the handler.
\<close>

definition delete_loved_one :: "string \<Rightarrow> server_state \<Rightarrow> response \<times> server_state" where
  "delete_loved_one k st =
     (case get_prop (lovedOnes st) k of
        Undefined \<Rightarrow> (Response 404 (ErrorBody ''Loved one not found''), st)
      | Inherited m \<Rightarrow> (Unhandled ''TypeError'', st)
      | Own lovedOne \<Rightarrow>
          (Response 200 (MessageBody ''Loved one profile deleted''),
           st\<lparr>disk := delete_photos (photos lovedOne) (disk st),
              lovedOnes := (lovedOnes st)(k := None)\<rparr>))"

text \<open>Every key of the map is a string of decimal digits, as the ids the server makes are.\<close>

definition ids_only :: "server_state \<Rightarrow> bool" where
  "ids_only st = (\<forall>k \<in> dom (lovedOnes st). all_digits k)"

section \<open>Image request forwarder\<close>

text \<open>
  The request sent to the image API: the prompt and the bearer key (the model, the count,
  the size and the quality are constants of the code).
\<close>

record outbound =
  out_prompt :: string
  out_key :: string

text \<open>
  What comes back from the API:
  \<^item> \<open>Throws m\<close>: \<^verbatim>\<open>fetch\<close> or \<^verbatim>\<open>response.json()\<close> rejects, or \<^verbatim>\<open>data.data[0]\<close> cannot be
    read: an exception with message \<open>m\<close>;
  \<^item> \<open>NotOk status m\<close>: \<^verbatim>\<open>response.ok\<close> is false, with \<^verbatim>\<open>response.status\<close> and
    \<^verbatim>\<open>data.error?.message\<close>;
  \<^item> \<open>Generated url revised\<close>: \<^verbatim>\<open>data.data[0].url\<close> and \<^verbatim>\<open>data.data[0].revised_prompt\<close>.
\<close>

datatype upstream_reply =
    Throws string
  | NotOk nat "string option"
  | Generated "string option" "string option"

text \<open>
  A service to run the routes against: it answers every request with an image and, as the
  revised prompt, the prompt it was sent.
\<close>

definition echo_api :: "outbound \<Rightarrow> upstream_reply" where
  "echo_api call = Generated (Some ''https://images.example/1.png'') (Some (out_prompt call))"

definition style_suffix :: string where
  "style_suffix = '' Create this as a vintage dreamlike polaroid photograph with surreal, ethereal qualities, soft focus, nostalgic muted tones, and a touch of the uncanny.''"

definition plain_style_suffix :: string where
  "plain_style_suffix = '', as a vintage dreamlike polaroid photograph with surreal, ethereal qualities, soft focus, nostalgic muted tones, and a touch of the uncanny''"

text \<open>
  The template of \<^verbatim>\<open>enhancedPrompt\<close>, from the three values it interpolates:
  \<^verbatim>\<open>lovedOne.name\<close> and \<^verbatim>\<open>lovedOne.description\<close> as the template prints them, and
  \<^verbatim>\<open>lovedOne.relationship\<close> (the empty string and \<^verbatim>\<open>undefined\<close> are falsy).
\<close>

definition template :: "string \<Rightarrow> string \<Rightarrow> string \<Rightarrow> string option \<Rightarrow> string" where
  "template prompt nm descr rel =
     prompt @ ''. The scene includes '' @ nm @ '', '' @ descr @ ''. ''
       @ (if falsy rel then [] else ''They were my '' @ (case rel of Some r \<Rightarrow> r | None \<Rightarrow> []) @ ''.'')
       @ style_suffix"

definition enhancedPrompt :: "string \<Rightarrow> profile \<Rightarrow> string" where
  "enhancedPrompt prompt lovedOne =
     template prompt (name lovedOne) (description lovedOne) (Some (relationship lovedOne))"

text \<open>The same template on a member of \<^verbatim>\<open>Object.prototype\<close>.\<close>

definition inheritedPrompt :: "string \<Rightarrow> string \<Rightarrow> string" where
  "inheritedPrompt prompt m =
     template prompt (case inherited_name m of Some n \<Rightarrow> n | None \<Rightarrow> ''undefined'')
       ''undefined'' None"

text \<open>
  The part both generation routes share: one call to the API, and the answer made of its
  reply. \<open>who\<close> is \<^verbatim>\<open>lovedOneName\<close> (absent on the plain route).
\<close>

definition forward ::
  "(outbound \<Rightarrow> upstream_reply) \<Rightarrow> outbound \<Rightarrow> string option \<Rightarrow> response \<times> outbound list" where
  "forward api call who =
     (case api call of
        Throws m \<Rightarrow> (Response 500 (ErrorBody (''Internal server error: '' @ m)), [call])
      | NotOk status m \<Rightarrow>
          (Response status
             (ErrorBody (if falsy m then ''Failed to generate image''
                         else (case m of Some e \<Rightarrow> e | None \<Rightarrow> []))), [call])
      | Generated url revised \<Rightarrow> (Response 200 (ImageBody url revised who), [call]))"

text \<open>
  \<^verbatim>\<open>app.post('/api/generate')\<close>. \<open>key\<close> is \<^verbatim>\<open>process.env.OPENAI_API_KEY\<close>, \<open>api\<close> the external
  service, \<open>prompt\<close> the body's field. The result is the response and the calls made to the
  service.
\<close>

definition post_generate ::
  "string option \<Rightarrow> (outbound \<Rightarrow> upstream_reply) \<Rightarrow> string option \<Rightarrow> response \<times> outbound list" where
  "post_generate key api prompt =
     (if falsy prompt then (Response 400 (ErrorBody ''Prompt is required''), [])
      else if falsy key
      then (Response 500 (ErrorBody ''OpenAI API key not configured on server. Please set OPENAI_API_KEY environment variable.''), [])
      else (let styledPrompt = (case prompt of Some p \<Rightarrow> p | None \<Rightarrow> []) @ plain_style_suffix
            in forward api \<lparr>out_prompt = styledPrompt,
                             out_key = (case key of Some k \<Rightarrow> k | None \<Rightarrow> [])\<rparr> None))"

text \<open>\<^verbatim>\<open>app.post('/api/generate-with-loved-one')\<close>\<close>

definition post_generate_with_loved_one ::
  "string option \<Rightarrow> (outbound \<Rightarrow> upstream_reply) \<Rightarrow> string option \<Rightarrow> string option \<Rightarrow>
   server_state \<Rightarrow> response \<times> outbound list" where
  "post_generate_with_loved_one key api prompt lovedOneId st =
     (let p = (case prompt of Some p \<Rightarrow> p | None \<Rightarrow> []);
          k = (case key of Some k \<Rightarrow> k | None \<Rightarrow> []);
          unconfigured = (Response 500 (ErrorBody ''OpenAI API key not configured on server''), [])
      in if falsy prompt \<or> falsy lovedOneId
         then (Response 400 (ErrorBody ''Prompt and lovedOneId are required''), [])
         else case get_prop (lovedOnes st) (case lovedOneId of Some i \<Rightarrow> i | None \<Rightarrow> []) of
                Undefined \<Rightarrow> (Response 404 (ErrorBody ''Loved one not found''), [])
              | Own lovedOne \<Rightarrow>
                  if falsy key then unconfigured
                  else forward api \<lparr>out_prompt = enhancedPrompt p lovedOne, out_key = k\<rparr>
                         (Some (name lovedOne))
              | Inherited m \<Rightarrow>
                  if falsy key then unconfigured
                  else forward api \<lparr>out_prompt = inheritedPrompt p m, out_key = k\<rparr>
                         (inherited_name m))"

section \<open>Facts about the AR session log\<close>

lemma js_slice_last: "0 < n \<Longrightarrow> js_slice_from (- int n) xs = drop (length xs - n) xs"
  by (simp add: js_slice_from_def Let_def nat_diff_distrib' max_def)

lemma length_js_slice_last: "length (js_slice_from (- 1000) xs) \<le> 1000"
  using js_slice_last [of 1000 xs] by simp

lemma post_ar_session_bounded:
  "bounded f \<Longrightarrow> bounded (snd (post_ar_session io now sessionData f))"
  using length_js_slice_last
  by (cases "write_result io")
     (auto simp: post_ar_session_def readARSessions_def writeARSessions_def bounded_def
                 stored_def Let_def
           split: ar_file.splits sessions_value.splits)

lemma run_appends_bounded: "bounded f \<Longrightarrow> bounded (run_appends reqs f)"
  by (induction reqs f rule: run_appends.induct) (simp_all add: post_ar_session_bounded)

lemma post_ar_session_saved:
  assumes "fst (post_ar_session io now sessionData f) = Response 200 (SavedBody cnt)"
  shows "bounded (snd (post_ar_session io now sessionData f)) \<and>
     cnt = length (stored (snd (post_ar_session io now sessionData f)))"
  using assms length_js_slice_last
  by (cases "write_result io")
     (auto simp: post_ar_session_def readARSessions_def writeARSessions_def bounded_def
                 stored_def Let_def
           split: ar_file.splits sessions_value.splits if_splits)

lemma post_ar_session_clean:
  assumes "clean (io, now, sessionData)" and "f \<noteq> Foreign"
  shows "snd (post_ar_session io now sessionData f) =
           Document (js_slice_from (- 1000) (stored f @ [stamp now sessionData]))"
  using assms
  by (cases f)
     (simp_all add: clean_def post_ar_session_def readARSessions_def writeARSessions_def
        stored_def Let_def)

lemma last_of_last:
  "drop (length (drop (length xs - n) xs @ ys) - n) (drop (length xs - n) xs @ ys) =
   drop (length (xs @ ys) - n) (xs @ ys)"
  by (cases "length xs \<le> n") (auto simp: add.commute)

lemma run_appends_clean:
  assumes "list_all clean reqs" and "f \<noteq> Foreign" and "bounded f"
  shows "stored (run_appends reqs f) =
           drop (length (stored f) + length reqs - 1000) (stored f @ map stamped reqs)
         \<and> run_appends reqs f \<noteq> Foreign"
  using assms
proof (induction reqs arbitrary: f)
  case Nil
  then show ?case by (simp add: bounded_def)
next
  case (Cons r rest)
  obtain io now sessionData where r: "r = (io, now, sessionData)"
    by (cases r) auto
  let ?x = "stamp now sessionData"
  let ?f1 = "snd (post_ar_session io now sessionData f)"
  from Cons.prems r have c: "clean (io, now, sessionData)" and rest: "list_all clean rest"
    by simp_all
  have f1: "?f1 = Document (drop (length (stored f @ [?x]) - 1000) (stored f @ [?x]))"
    using post_ar_session_clean [OF c Cons.prems(2)] js_slice_last [of 1000 "stored f @ [?x]"]
    by simp
  then have s1: "stored ?f1 = drop (length (stored f @ [?x]) - 1000) (stored f @ [?x])"
    by (simp add: stored_def)
  have nf: "?f1 \<noteq> Foreign" using f1 by simp
  have b1: "bounded ?f1" using s1 by (simp add: bounded_def)
  have ih: "stored (run_appends rest ?f1) =
              drop (length (stored ?f1) + length rest - 1000) (stored ?f1 @ map stamped rest)
            \<and> run_appends rest ?f1 \<noteq> Foreign"
    using Cons.IH [OF rest nf b1] .
  have "drop (length (stored ?f1) + length rest - 1000) (stored ?f1 @ map stamped rest) =
        drop (length (stored f) + length (r # rest) - 1000) (stored f @ map stamped (r # rest))"
    using last_of_last [of "stored f @ [?x]" 1000 "map stamped rest"] s1 r
    by (simp add: stamped_def)
  with ih r show ?case by simp
qed


text \<open>
  C1. For every sequence of appends, handled one after the other, whatever the bodies and
  the I/O outcomes: a persisted collection of at most 1000 records stays one (the empty
  document a fresh start writes is one). When the bodies are valid and the reads and writes
  work, the collection after the run is the old one followed by the stamped records, in
  order, cut from the front down to the last 1000: the oldest records go first. After
  1005 such appends it is exactly the last 1000 of them. Whatever the file held before, an
  append that answers "saved" has written at most 1000 records, and reports their number.
\<close>

theorem ar_log_bounded_fifo:
  "(bounded f \<longrightarrow> bounded (run_appends reqs f)) \<and>
   (bounded f \<and> f \<noteq> Foreign \<and> list_all clean reqs \<longrightarrow>
      stored (run_appends reqs f) =
        drop (length (stored f) + length reqs - 1000) (stored f @ map stamped reqs)) \<and>
   (bounded f \<and> f \<noteq> Foreign \<and> list_all clean reqs \<and> length reqs = 1005 \<longrightarrow>
      stored (run_appends reqs f) = drop 5 (map stamped reqs) \<and>
      length (stored (run_appends reqs f)) = 1000) \<and>
   (fst (post_ar_session io now sessionData f) = Response 200 (SavedBody cnt) \<longrightarrow>
      bounded (snd (post_ar_session io now sessionData f)) \<and>
      cnt = length (stored (snd (post_ar_session io now sessionData f))))"
proof (intro conjI impI)
  assume "fst (post_ar_session io now sessionData f) = Response 200 (SavedBody cnt)"
  then show "bounded (snd (post_ar_session io now sessionData f))"
    by (rule post_ar_session_saved [THEN conjunct1])
next
  assume "fst (post_ar_session io now sessionData f) = Response 200 (SavedBody cnt)"
  then show "cnt = length (stored (snd (post_ar_session io now sessionData f)))"
    by (rule post_ar_session_saved [THEN conjunct2])
next
  assume "bounded f"
  then show "bounded (run_appends reqs f)" by (rule run_appends_bounded)
next
  assume "bounded f \<and> f \<noteq> Foreign \<and> list_all clean reqs"
  then show "stored (run_appends reqs f) =
        drop (length (stored f) + length reqs - 1000) (stored f @ map stamped reqs)"
    using run_appends_clean [of reqs f] by simp
next
  assume a: "bounded f \<and> f \<noteq> Foreign \<and> list_all clean reqs \<and> length reqs = 1005"
  then have "stored (run_appends reqs f) =
        drop (length (stored f) + length reqs - 1000) (stored f @ map stamped reqs)"
    using run_appends_clean [of reqs f] by simp
  with a show e: "stored (run_appends reqs f) = drop 5 (map stamped reqs)"
    by simp
  from a show "length (stored (run_appends reqs f)) = 1000"
    unfolding e by simp
qed

text \<open>
  1005 appends to the empty document, numbered 1 to 1005: the records 6 to 1005 remain.
  One append to the empty document reports one record.
\<close>

theorem ar_log_bounded_fifo_witness:
  "bounded (Document []) \<and> Document [] \<noteq> Foreign \<and>
   list_all clean
     (map (\<lambda>i. (\<lparr>read_fails = False, write_result = Written\<rparr>, ''2026-01-01T00:00:00.000Z'',
                 [(''sessionId'', JNum (int i))])) [1..<1006]) \<and>
   length
     (map (\<lambda>i. (\<lparr>read_fails = False, write_result = Written\<rparr>, ''2026-01-01T00:00:00.000Z'',
                 [(''sessionId'', JNum (int i))])) [1..<1006]) = 1005 \<and>
   stored (run_appends
     (map (\<lambda>i. (\<lparr>read_fails = False, write_result = Written\<rparr>, ''2026-01-01T00:00:00.000Z'',
                 [(''sessionId'', JNum (int i))])) [1..<1006]) (Document [])) =
     map (\<lambda>i. [(''sessionId'', JNum (int i)), (''savedAt'', JStr ''2026-01-01T00:00:00.000Z'')])
       [6..<1006] \<and>
   fst (post_ar_session \<lparr>read_fails = False, write_result = Written\<rparr>
         ''2026-01-01T00:00:00.000Z'' [(''sessionId'', JNum 1)] (Document [])) =
     Response 200 (SavedBody 1) \<and>
   bounded (snd (post_ar_session \<lparr>read_fails = False, write_result = Written\<rparr>
         ''2026-01-01T00:00:00.000Z'' [(''sessionId'', JNum 1)] (Document [])))"
proof -
  let ?reqs = "map (\<lambda>i. (\<lparr>read_fails = False, write_result = Written\<rparr>,
                 ''2026-01-01T00:00:00.000Z'', [(''sessionId'', JNum (int i))])) [1..<1006]"
  have b: "bounded (Document [])" by (simp add: bounded_def stored_def)
  have c: "list_all clean ?reqs"
    by (simp add: list_all_iff clean_def invalid_session_def del: upt_rec_numeral)
  have l: "length ?reqs = 1005" by (simp del: upt_rec_numeral)
  have d: "drop 5 (map stamped ?reqs) =
      map (\<lambda>i. [(''sessionId'', JNum (int i)), (''savedAt'', JStr ''2026-01-01T00:00:00.000Z'')])
       [6..<1006]"
    by (simp add: drop_map stamped_def stamp_def comp_def del: upt_rec_numeral)
  have s: "fst (post_ar_session \<lparr>read_fails = False, write_result = Written\<rparr>
         ''2026-01-01T00:00:00.000Z'' [(''sessionId'', JNum 1)] (Document [])) =
     Response 200 (SavedBody 1)"
    by (simp add: post_ar_session_def invalid_session_def readARSessions_def
          writeARSessions_def js_slice_from_def)
  from ar_log_bounded_fifo [where f = "Document []" and reqs = ?reqs
      and io = "\<lparr>read_fails = False, write_result = Written\<rparr>"
      and now = "''2026-01-01T00:00:00.000Z''" and sessionData = "[(''sessionId'', JNum 1)]"
      and cnt = 1] b c l s
  have "stored (run_appends ?reqs (Document [])) = drop 5 (map stamped ?reqs) \<and>
      bounded (snd (post_ar_session \<lparr>read_fails = False, write_result = Written\<rparr>
         ''2026-01-01T00:00:00.000Z'' [(''sessionId'', JNum 1)] (Document [])))"
    by blast
  with b c l d s show ?thesis by (simp del: upt_rec_numeral)
qed

text \<open>
  C9. A read of the backing document that fails yields the empty sequence and no error:
  \<^verbatim>\<open>readARSessions\<close> returns \<^verbatim>\<open>[]\<close>, the listing answers 200 with no sessions, and an append
  goes on from the empty sequence and answers 200. A write that fails is reported: the
  helper returns false, clearing answers 500, and an append with a valid body answers 500.
\<close>

theorem ar_log_io_failures:
  "readARSessions True f = Arr [] \<and>
   get_ar_sessions \<lparr>read_fails = True, write_result = w\<rparr> f = Response 200 (SessionsBody (Arr [])) \<and>
   (\<not> invalid_session sessionData \<longrightarrow>
      post_ar_session \<lparr>read_fails = True, write_result = Written\<rparr> now sessionData f =
        (Response 200 (SavedBody 1), Document [stamp now sessionData])) \<and>
   (w \<noteq> Written \<longrightarrow>
      fst (writeARSessions w ss f) = False \<and>
      fst (delete_ar_sessions \<lparr>read_fails = r, write_result = w\<rparr> f) =
        Response 500 (ErrorBody ''Failed to clear sessions'')) \<and>
   (w \<noteq> Written \<and> \<not> invalid_session sessionData \<longrightarrow>
      fst (post_ar_session \<lparr>read_fails = r, write_result = w\<rparr> now sessionData f) =
        Response 500 (ErrorBody (if readARSessions r f = NotArr then ''Internal server error''
                                 else ''Failed to save session'')))"
proof (intro conjI impI)
  show "readARSessions True f = Arr []"
    by (simp add: readARSessions_def)
  show "get_ar_sessions \<lparr>read_fails = True, write_result = w\<rparr> f =
          Response 200 (SessionsBody (Arr []))"
    by (simp add: get_ar_sessions_def readARSessions_def)
next
  assume "\<not> invalid_session sessionData"
  then show "post_ar_session \<lparr>read_fails = True, write_result = Written\<rparr> now sessionData f =
        (Response 200 (SavedBody 1), Document [stamp now sessionData])"
    by (simp add: post_ar_session_def readARSessions_def writeARSessions_def js_slice_from_def)
next
  assume "w \<noteq> Written"
  then show "fst (writeARSessions w ss f) = False"
    by (cases w) (simp_all add: writeARSessions_def)
next
  assume "w \<noteq> Written"
  then show "fst (delete_ar_sessions \<lparr>read_fails = r, write_result = w\<rparr> f) =
        Response 500 (ErrorBody ''Failed to clear sessions'')"
    by (cases w) (simp_all add: delete_ar_sessions_def writeARSessions_def)
next
  assume a: "w \<noteq> Written \<and> \<not> invalid_session sessionData"
  show "fst (post_ar_session \<lparr>read_fails = r, write_result = w\<rparr> now sessionData f) =
        Response 500 (ErrorBody (if readARSessions r f = NotArr then ''Internal server error''
                                 else ''Failed to save session''))"
  proof (cases "readARSessions r f")
    case (Arr sessions)
    with a show ?thesis
      by (cases w) (simp_all add: post_ar_session_def writeARSessions_def Let_def)
  next
    case NotArr
    with a show ?thesis
      by (simp add: post_ar_session_def)
  qed
qed

text \<open>
  A log of one record: an append whose read fails answers 200 and leaves only the new
  record; a clear and an append whose write fails answer 500.
\<close>

theorem ar_log_io_failures_witness:
  "\<not> invalid_session [(''sessionId'', JStr ''s-1'')] \<and>
   FailedTruncated \<noteq> Written \<and>
   post_ar_session \<lparr>read_fails = True, write_result = Written\<rparr> ''2026-01-01T00:00:00.000Z''
       [(''sessionId'', JStr ''s-1'')] (Document [[(''sessionId'', JStr ''s-0'')]]) =
     (Response 200 (SavedBody 1),
      Document [[(''sessionId'', JStr ''s-1''), (''savedAt'', JStr ''2026-01-01T00:00:00.000Z'')]]) \<and>
   fst (delete_ar_sessions \<lparr>read_fails = False, write_result = FailedTruncated\<rparr>
       (Document [[(''sessionId'', JStr ''s-0'')]])) =
     Response 500 (ErrorBody ''Failed to clear sessions'') \<and>
   fst (post_ar_session \<lparr>read_fails = False, write_result = FailedTruncated\<rparr>
       ''2026-01-01T00:00:00.000Z'' [(''sessionId'', JStr ''s-1'')]
       (Document [[(''sessionId'', JStr ''s-0'')]])) =
     Response 500 (ErrorBody ''Failed to save session'')"
proof -
  have v: "\<not> invalid_session [(''sessionId'', JStr ''s-1'')]"
    by (simp add: invalid_session_def)
  have w: "FailedTruncated \<noteq> Written" by simp
  from ar_log_io_failures [of "Document [[(''sessionId'', JStr ''s-0'')]]" FailedTruncated
      "[(''sessionId'', JStr ''s-1'')]" "''2026-01-01T00:00:00.000Z''" "[]" False] v w
  show ?thesis
    by (simp add: stamp_def readARSessions_def)
qed

section \<open>Facts about the profile store\<close>

subsection \<open>Ids\<close>

text \<open>
  \<^verbatim>\<open>toString\<close> is one-to-one on clock readings, and its digits are never the name of a
  member of \<^verbatim>\<open>Object.prototype\<close>.
\<close>

lemma digit_cases: "d < 10 \<Longrightarrow> d \<in> {0, 1, 2, 3, 4, 5, 6, 7, 8, 9::nat}"
  by auto

lemma digit_value: "d < 10 \<Longrightarrow> digit_of (digit_char d) = d"
  using digit_cases [of d] by (auto simp: digit_char_def digit_of_def)

lemma digit_char_digit: "d < 10 \<Longrightarrow> digit_char d \<in> set ''0123456789''"
  using digit_cases [of d] by (auto simp: digit_char_def)

lemma digits_value_toString: "digits_value (js_toString n) = n"
proof (induction n rule: js_toString.induct)
  case (1 n)
  show ?case
  proof (cases "n < 10")
    case True
    then show ?thesis
      by (subst js_toString.simps) (simp add: digits_value_def digit_value)
  next
    case False
    with 1 show ?thesis
      by (subst js_toString.simps) (simp add: digits_value_def digit_value)
  qed
qed

lemma js_toString_inj: "js_toString a = js_toString b \<Longrightarrow> a = b"
  by (metis digits_value_toString)

lemma all_digits_toString: "all_digits (js_toString n)"
proof (induction n rule: js_toString.induct)
  case (1 n)
  show ?case
  proof (cases "n < 10")
    case True
    then show ?thesis
      by (subst js_toString.simps) (simp add: all_digits_def digit_char_digit del: set_simps)
  next
    case False
    with 1 show ?thesis
      by (subst js_toString.simps) (simp add: all_digits_def digit_char_digit del: set_simps)
  qed
qed

lemma prototype_keys_not_digits: "list_all (\<lambda>k. \<not> all_digits k) object_prototype_keys"
  by (simp add: object_prototype_keys_def all_digits_def)

lemma all_digits_not_inherited: "all_digits k \<Longrightarrow> k \<notin> set object_prototype_keys"
  using prototype_keys_not_digits by (auto simp: list_all_iff)

lemma created_id_not_inherited: "js_toString n \<notin> set object_prototype_keys"
  by (simp add: all_digits_not_inherited all_digits_toString)

lemma delete_photos_eq: "delete_photos ps d = d - set ps"
  by (induction ps arbitrary: d) auto

subsection \<open>Creation\<close>

text \<open>
  The scenario used below: on the empty store, a profile for Mom is created at clock
  reading 1730000000000 with one uploaded photo.
\<close>

lemma scenario_state:
  "snd (post_loved_ones 1730000000000 ''2024-10-27T03:33:20.000Z''
          \<lparr>body_name = Some ''Mom'', body_description = Some ''warm smile'',
            body_relationship = None\<rparr>
          (Stored [\<lparr>up_now = 1730000000000, up_rnd = 42, up_ext = ''.png''\<rparr>]) no_profiles) =
   \<lparr>lovedOnes = [''1730000000000'' \<mapsto>
        \<lparr>profile_id = ''1730000000000'', name = ''Mom'', description = ''warm smile'',
          relationship = [], photos = [''/uploads/1730000000000-42.png''],
          createdAt = ''2024-10-27T03:33:20.000Z''\<rparr>],
      disk = {''/uploads/1730000000000-42.png''}\<rparr>"
  by (simp add: post_loved_ones_def create_handler_def filename_cb_def uploads_path_def
        no_profiles_def falsy_def js_toString.simps digit_char_def Let_def)

lemma post_loved_ones_rejects:
  assumes "falsy (body_name b) \<or> falsy (body_description b) \<or> up = NotMultipart \<or>
    up = Stored [] \<or> up = Rejected"
  shows "lovedOnes (snd (post_loved_ones now_ms now_iso b up st)) = lovedOnes st \<and>
     (up \<noteq> Rejected \<longrightarrow>
        fst (post_loved_ones now_ms now_iso b up st) =
          Response 400
            (ErrorBody (if falsy (body_name b) \<or> falsy (body_description b)
                        then ''Name and description are required''
                        else ''At least one photo is required'')))"
proof (cases up)
  case NotMultipart
  then show ?thesis by (simp add: post_loved_ones_def create_handler_def)
next
  case Rejected
  then show ?thesis by (simp add: post_loved_ones_def)
next
  case (Stored ups)
  with assms have "falsy (body_name b) \<or> falsy (body_description b) \<or> ups = []"
    by simp
  with Stored show ?thesis
    by (auto simp: post_loved_ones_def create_handler_def Let_def)
qed

lemma create_handler_stores:
  assumes "body_name b = Some n" and "n \<noteq> []" and "body_description b = Some d"
    and "d \<noteq> []" and "fs \<noteq> []"
  shows "create_handler now_ms now_iso b (Some fs) st =
      (Response 200 (ProfileBody
         \<lparr>profile_id = js_toString now_ms, name = n, description = d,
           relationship = (case body_relationship b of Some r \<Rightarrow> r | None \<Rightarrow> []),
           photos = map uploads_path fs, createdAt = now_iso\<rparr>),
       st\<lparr>lovedOnes := (lovedOnes st)(js_toString now_ms \<mapsto>
         \<lparr>profile_id = js_toString now_ms, name = n, description = d,
           relationship = (case body_relationship b of Some r \<Rightarrow> r | None \<Rightarrow> []),
           photos = map uploads_path fs, createdAt = now_iso\<rparr>)\<rparr>)"
proof -
  from assms(5) obtain f rest where "fs = f # rest" by (cases fs) auto
  with assms show ?thesis
    by (simp add: create_handler_def falsy_def Let_def)
qed

lemma post_loved_ones_stores:
  assumes "body_name b = Some n" and "n \<noteq> []" and "body_description b = Some d"
    and "d \<noteq> []" and "ups \<noteq> []"
  shows "post_loved_ones now_ms now_iso b (Stored ups) st =
      (Response 200 (ProfileBody
         \<lparr>profile_id = js_toString now_ms, name = n, description = d,
           relationship = (case body_relationship b of Some r \<Rightarrow> r | None \<Rightarrow> []),
           photos = map (\<lambda>f. uploads_path (filename_cb f)) ups, createdAt = now_iso\<rparr>),
       \<lparr>lovedOnes = (lovedOnes st)(js_toString now_ms \<mapsto>
         \<lparr>profile_id = js_toString now_ms, name = n, description = d,
           relationship = (case body_relationship b of Some r \<Rightarrow> r | None \<Rightarrow> []),
           photos = map (\<lambda>f. uploads_path (filename_cb f)) ups, createdAt = now_iso\<rparr>),
         disk = disk st \<union> set (map (\<lambda>f. uploads_path (filename_cb f)) ups)\<rparr>)"
proof -
  let ?st1 = "st\<lparr>disk := disk st \<union> set (map uploads_path (map filename_cb ups))\<rparr>"
  have p: "post_loved_ones now_ms now_iso b (Stored ups) st =
      create_handler now_ms now_iso b (Some (map filename_cb ups)) ?st1"
    by (simp only: post_loved_ones_def Let_def upload_outcome.case)
  from assms(5) have ne: "map filename_cb ups \<noteq> []" by simp
  show ?thesis
    unfolding p create_handler_stores [OF assms(1-4) ne]
    by (simp add: comp_def)
qed

text \<open>
  C3, as stated, fails in two places. A request without a name whose upload the middleware
  rejects never reaches the handler: it is not answered 400. And the id a successful
  creation gets need not be new: on a store that holds Dad under 1730000000001, a creation
  at that clock reading gets the same id.
\<close>

theorem rejected_upload_and_reused_id_counterexample:
  "post_loved_ones 1730000000000 ''2024-10-27T03:33:20.000Z''
      \<lparr>body_name = None, body_description = Some ''warm smile'', body_relationship = None\<rparr>
      Rejected no_profiles =
     (Unhandled ''upload error'', no_profiles) \<and>
   lovedOnes
     \<lparr>lovedOnes = [''1730000000001'' \<mapsto>
          \<lparr>profile_id = ''1730000000001'', name = ''Dad'', description = ''tall'',
            relationship = [], photos = [''/uploads/1730000000001-7.jpg''],
            createdAt = ''2024-10-27T03:33:20.001Z''\<rparr>],
       disk = {''/uploads/1730000000001-7.jpg''}\<rparr> ''1730000000001'' =
     Some \<lparr>profile_id = ''1730000000001'', name = ''Dad'', description = ''tall'',
            relationship = [], photos = [''/uploads/1730000000001-7.jpg''],
            createdAt = ''2024-10-27T03:33:20.001Z''\<rparr> \<and>
   fst (post_loved_ones 1730000000001 ''2024-10-27T03:33:20.001Z''
      \<lparr>body_name = Some ''Mom'', body_description = Some ''warm smile'',
        body_relationship = None\<rparr>
      (Stored [\<lparr>up_now = 1730000000001, up_rnd = 42, up_ext = ''.png''\<rparr>])
      \<lparr>lovedOnes = [''1730000000001'' \<mapsto>
          \<lparr>profile_id = ''1730000000001'', name = ''Dad'', description = ''tall'',
            relationship = [], photos = [''/uploads/1730000000001-7.jpg''],
            createdAt = ''2024-10-27T03:33:20.001Z''\<rparr>],
       disk = {''/uploads/1730000000001-7.jpg''}\<rparr>) =
     Response 200 (ProfileBody
       \<lparr>profile_id = ''1730000000001'', name = ''Mom'', description = ''warm smile'',
         relationship = [], photos = [''/uploads/1730000000001-42.png''],
         createdAt = ''2024-10-27T03:33:20.001Z''\<rparr>)"
  by (simp add: post_loved_ones_def create_handler_def filename_cb_def uploads_path_def
        falsy_def js_toString.simps digit_char_def Let_def)

text \<open>
  C3, amended. A create request that reaches the handler (the upload middleware did not
  end it) and lacks the name or the description, or has no photo attached, is answered 400
  and stores no record. A request the upload middleware ends is not answered by the
  handler and stores no record either. Every other request succeeds: its id is the decimal
  string of the clock reading, whether or not the store already holds that id; the record,
  with the paths of the uploaded photos, is stored under that id in place of whatever was
  there and returned, and reading the id back gives it; every entry under another id is
  as before; and the id is one the store did not hold whenever no stored id is that
  reading's string.
\<close>

theorem create_validates_then_stores:
  "(up \<noteq> Rejected \<and>
    (falsy (body_name b) \<or> falsy (body_description b) \<or> up = NotMultipart \<or> up = Stored []) \<longrightarrow>
      fst (post_loved_ones now_ms now_iso b up st) =
        Response 400
          (ErrorBody (if falsy (body_name b) \<or> falsy (body_description b)
                      then ''Name and description are required''
                      else ''At least one photo is required'')) \<and>
      lovedOnes (snd (post_loved_ones now_ms now_iso b up st)) = lovedOnes st) \<and>
   post_loved_ones now_ms now_iso b Rejected st = (Unhandled ''upload error'', st) \<and>
   (body_name b = Some n \<and> n \<noteq> [] \<and> body_description b = Some d \<and> d \<noteq> [] \<and>
    ups \<noteq> [] \<longrightarrow>
      fst (post_loved_ones now_ms now_iso b (Stored ups) st) =
        Response 200 (ProfileBody
          \<lparr>profile_id = js_toString now_ms, name = n, description = d,
            relationship = (case body_relationship b of Some r \<Rightarrow> r | None \<Rightarrow> []),
            photos = map (\<lambda>f. uploads_path (filename_cb f)) ups, createdAt = now_iso\<rparr>) \<and>
      lovedOnes (snd (post_loved_ones now_ms now_iso b (Stored ups) st)) =
        (lovedOnes st)(js_toString now_ms \<mapsto>
          \<lparr>profile_id = js_toString now_ms, name = n, description = d,
            relationship = (case body_relationship b of Some r \<Rightarrow> r | None \<Rightarrow> []),
            photos = map (\<lambda>f. uploads_path (filename_cb f)) ups, createdAt = now_iso\<rparr>) \<and>
      get_loved_one (js_toString now_ms) (snd (post_loved_ones now_ms now_iso b (Stored ups) st)) =
        fst (post_loved_ones now_ms now_iso b (Stored ups) st) \<and>
      (k \<noteq> js_toString now_ms \<longrightarrow>
         lovedOnes (snd (post_loved_ones now_ms now_iso b (Stored ups) st)) k = lovedOnes st k) \<and>
      (lovedOnes st (js_toString now_ms) = None \<longrightarrow>
         js_toString now_ms \<notin> dom (lovedOnes st) \<and>
         dom (lovedOnes (snd (post_loved_ones now_ms now_iso b (Stored ups) st))) =
           insert (js_toString now_ms) (dom (lovedOnes st))))"
proof (intro conjI impI)
  assume a: "up \<noteq> Rejected \<and>
    (falsy (body_name b) \<or> falsy (body_description b) \<or> up = NotMultipart \<or> up = Stored [])"
  then have h: "falsy (body_name b) \<or> falsy (body_description b) \<or> up = NotMultipart \<or>
    up = Stored [] \<or> up = Rejected"
    by blast
  from a post_loved_ones_rejects [OF h, of now_ms now_iso st]
  show "fst (post_loved_ones now_ms now_iso b up st) =
        Response 400
          (ErrorBody (if falsy (body_name b) \<or> falsy (body_description b)
                      then ''Name and description are required''
                      else ''At least one photo is required''))"
    by blast
  from post_loved_ones_rejects [OF h, of now_ms now_iso st]
  show "lovedOnes (snd (post_loved_ones now_ms now_iso b up st)) = lovedOnes st"
    by blast
next
  show "post_loved_ones now_ms now_iso b Rejected st = (Unhandled ''upload error'', st)"
    by (simp add: post_loved_ones_def)
next
  assume a: "body_name b = Some n \<and> n \<noteq> [] \<and> body_description b = Some d \<and> d \<noteq> [] \<and>
    ups \<noteq> []"
  let ?entry = "\<lparr>profile_id = js_toString now_ms, name = n, description = d,
            relationship = (case body_relationship b of Some r \<Rightarrow> r | None \<Rightarrow> []),
            photos = map (\<lambda>f. uploads_path (filename_cb f)) ups, createdAt = now_iso\<rparr>"
  from a have c: "post_loved_ones now_ms now_iso b (Stored ups) st =
      (Response 200 (ProfileBody ?entry),
       \<lparr>lovedOnes = (lovedOnes st)(js_toString now_ms \<mapsto> ?entry),
         disk = disk st \<union> set (map (\<lambda>f. uploads_path (filename_cb f)) ups)\<rparr>)"
    using post_loved_ones_stores [of b n d ups now_ms now_iso st] by blast
  show "fst (post_loved_ones now_ms now_iso b (Stored ups) st) =
      Response 200 (ProfileBody ?entry)"
    unfolding c by simp
  show "lovedOnes (snd (post_loved_ones now_ms now_iso b (Stored ups) st)) =
      (lovedOnes st)(js_toString now_ms \<mapsto> ?entry)"
    unfolding c by simp
  show "get_loved_one (js_toString now_ms) (snd (post_loved_ones now_ms now_iso b (Stored ups) st)) =
      fst (post_loved_ones now_ms now_iso b (Stored ups) st)"
    unfolding c by (simp add: get_loved_one_def get_prop_def)
  {
    assume "k \<noteq> js_toString now_ms"
    then show "lovedOnes (snd (post_loved_ones now_ms now_iso b (Stored ups) st)) k =
        lovedOnes st k"
      unfolding c by simp
  }
  {
    assume "lovedOnes st (js_toString now_ms) = None"
    then show "js_toString now_ms \<notin> dom (lovedOnes st)"
      by (simp add: dom_def)
  }
  {
    assume "lovedOnes st (js_toString now_ms) = None"
    show "dom (lovedOnes (snd (post_loved_ones now_ms now_iso b (Stored ups) st))) =
        insert (js_toString now_ms) (dom (lovedOnes st))"
      unfolding c by simp
  }
qed

text \<open>
  No name with one uploaded photo, and Mom with no photo: 400, and the empty store stays
  empty. On a store that holds Dad under 1730000000001, Mom with one photo at reading
  1730000000000 is stored under the id 1730000000000, an id the store did not hold; she
  is returned and read back, and Dad's record is as before.
\<close>

theorem create_validates_then_stores_witness:
  "post_loved_ones 1730000000000 ''2024-10-27T03:33:20.000Z''
      \<lparr>body_name = None, body_description = Some ''warm smile'', body_relationship = None\<rparr>
      (Stored [\<lparr>up_now = 1730000000000, up_rnd = 42, up_ext = ''.png''\<rparr>]) no_profiles =
     (Response 400 (ErrorBody ''Name and description are required''),
      \<lparr>lovedOnes = Map.empty, disk = {''/uploads/1730000000000-42.png''}\<rparr>) \<and>
   post_loved_ones 1730000000000 ''2024-10-27T03:33:20.000Z''
      \<lparr>body_name = Some ''Mom'', body_description = Some ''warm smile'',
        body_relationship = None\<rparr>
      (Stored []) no_profiles =
     (Response 400 (ErrorBody ''At least one photo is required''), no_profiles) \<and>
   post_loved_ones 1730000000000 ''2024-10-27T03:33:20.000Z''
      \<lparr>body_name = Some ''Mom'', body_description = Some ''warm smile'',
        body_relationship = None\<rparr>
      (Stored [\<lparr>up_now = 1730000000000, up_rnd = 42, up_ext = ''.png''\<rparr>])
      \<lparr>lovedOnes = [''1730000000001'' \<mapsto>
          \<lparr>profile_id = ''1730000000001'', name = ''Dad'', description = ''tall'',
            relationship = [], photos = [''/uploads/1730000000001-7.jpg''],
            createdAt = ''2024-10-27T03:33:20.001Z''\<rparr>],
       disk = {''/uploads/1730000000001-7.jpg''}\<rparr> =
     (Response 200 (ProfileBody
        \<lparr>profile_id = ''1730000000000'', name = ''Mom'', description = ''warm smile'',
          relationship = [], photos = [''/uploads/1730000000000-42.png''],
          createdAt = ''2024-10-27T03:33:20.000Z''\<rparr>),
      \<lparr>lovedOnes = [''1730000000001'' \<mapsto>
          \<lparr>profile_id = ''1730000000001'', name = ''Dad'', description = ''tall'',
            relationship = [], photos = [''/uploads/1730000000001-7.jpg''],
            createdAt = ''2024-10-27T03:33:20.001Z''\<rparr>,
         ''1730000000000'' \<mapsto>
          \<lparr>profile_id = ''1730000000000'', name = ''Mom'', description = ''warm smile'',
            relationship = [], photos = [''/uploads/1730000000000-42.png''],
            createdAt = ''2024-10-27T03:33:20.000Z''\<rparr>],
       disk = {''/uploads/1730000000001-7.jpg'', ''/uploads/1730000000000-42.png''}\<rparr>) \<and>
   get_loved_one ''1730000000000''
     (snd (post_loved_ones 1730000000000 ''2024-10-27T03:33:20.000Z''
      \<lparr>body_name = Some ''Mom'', body_description = Some ''warm smile'',
        body_relationship = None\<rparr>
      (Stored [\<lparr>up_now = 1730000000000, up_rnd = 42, up_ext = ''.png''\<rparr>])
      \<lparr>lovedOnes = [''1730000000001'' \<mapsto>
          \<lparr>profile_id = ''1730000000001'', name = ''Dad'', description = ''tall'',
            relationship = [], photos = [''/uploads/1730000000001-7.jpg''],
            createdAt = ''2024-10-27T03:33:20.001Z''\<rparr>],
       disk = {''/uploads/1730000000001-7.jpg''}\<rparr>)) =
     Response 200 (ProfileBody
        \<lparr>profile_id = ''1730000000000'', name = ''Mom'', description = ''warm smile'',
          relationship = [], photos = [''/uploads/1730000000000-42.png''],
          createdAt = ''2024-10-27T03:33:20.000Z''\<rparr>) \<and>
   ''1730000000000'' \<notin> dom
     (lovedOnes \<lparr>lovedOnes = [''1730000000001'' \<mapsto>
          \<lparr>profile_id = ''1730000000001'', name = ''Dad'', description = ''tall'',
            relationship = [], photos = [''/uploads/1730000000001-7.jpg''],
            createdAt = ''2024-10-27T03:33:20.001Z''\<rparr>],
       disk = {''/uploads/1730000000001-7.jpg''}\<rparr>)"
proof -
  let ?iso = "''2024-10-27T03:33:20.000Z''"
  let ?bad = "\<lparr>body_name = None, body_description = Some ''warm smile'',
      body_relationship = None\<rparr>"
  let ?good = "\<lparr>body_name = Some ''Mom'', body_description = Some ''warm smile'',
      body_relationship = None\<rparr>"
  let ?file = "\<lparr>up_now = 1730000000000, up_rnd = 42, up_ext = ''.png''\<rparr>"
  let ?dad = "\<lparr>profile_id = ''1730000000001'', name = ''Dad'', description = ''tall'',
            relationship = [], photos = [''/uploads/1730000000001-7.jpg''],
            createdAt = ''2024-10-27T03:33:20.001Z''\<rparr>"
  let ?mom = "\<lparr>profile_id = ''1730000000000'', name = ''Mom'', description = ''warm smile'',
          relationship = [], photos = [''/uploads/1730000000000-42.png''],
          createdAt = ?iso\<rparr>"
  let ?st = "\<lparr>lovedOnes = [''1730000000001'' \<mapsto> ?dad],
       disk = {''/uploads/1730000000001-7.jpg''}\<rparr>"
  have t: "js_toString 1730000000000 = ''1730000000000''"
    by (simp add: js_toString.simps digit_char_def)
  have n: "uploads_path (filename_cb ?file) = ''/uploads/1730000000000-42.png''"
    by (simp add: uploads_path_def filename_cb_def js_toString.simps digit_char_def)
  have 1: "Stored [?file] \<noteq> Rejected \<and> falsy (body_name ?bad)"
    by (simp add: falsy_def)
  have 2: "Stored [] \<noteq> Rejected \<and> \<not> (falsy (body_name ?good) \<or> falsy (body_description ?good))"
    by (simp add: falsy_def)
  have 3: "body_name ?good = Some ''Mom'' \<and> ''Mom'' \<noteq> [] \<and>
      body_description ?good = Some ''warm smile'' \<and> ''warm smile'' \<noteq> [] \<and> [?file] \<noteq> []"
    by simp
  have 4: "lovedOnes ?st (js_toString 1730000000000) = None"
    by (simp add: t)
  have 5: "''1730000000001'' \<noteq> js_toString 1730000000000"
    by (simp add: t)
  from create_validates_then_stores [where up = "Stored [?file]" and b = ?bad
      and now_ms = 1730000000000 and now_iso = ?iso and st = no_profiles] 1
  have a: "fst (post_loved_ones 1730000000000 ?iso ?bad (Stored [?file]) no_profiles) =
      Response 400 (ErrorBody ''Name and description are required'') \<and>
    lovedOnes (snd (post_loved_ones 1730000000000 ?iso ?bad (Stored [?file]) no_profiles)) =
      Map.empty"
    by (simp add: no_profiles_def)
  have a_disk: "disk (snd (post_loved_ones 1730000000000 ?iso ?bad (Stored [?file]) no_profiles)) =
      {''/uploads/1730000000000-42.png''}"
    by (simp add: post_loved_ones_def create_handler_def falsy_def Let_def n no_profiles_def)
  from a a_disk
  have a': "post_loved_ones 1730000000000 ?iso ?bad (Stored [?file]) no_profiles =
     (Response 400 (ErrorBody ''Name and description are required''),
      \<lparr>lovedOnes = Map.empty, disk = {''/uploads/1730000000000-42.png''}\<rparr>)"
    by (simp add: prod_eq_iff)
  from create_validates_then_stores [where up = "Stored []" and b = ?good
      and now_ms = 1730000000000 and now_iso = ?iso and st = no_profiles] 2
  have b: "fst (post_loved_ones 1730000000000 ?iso ?good (Stored []) no_profiles) =
      Response 400 (ErrorBody ''At least one photo is required'')"
    by simp
  have b_st: "snd (post_loved_ones 1730000000000 ?iso ?good (Stored []) no_profiles) = no_profiles"
    by (simp add: post_loved_ones_def create_handler_def falsy_def Let_def no_profiles_def)
  from b b_st
  have b': "post_loved_ones 1730000000000 ?iso ?good (Stored []) no_profiles =
     (Response 400 (ErrorBody ''At least one photo is required''), no_profiles)"
    by (simp add: prod_eq_iff)
  from create_validates_then_stores [where b = ?good and n = "''Mom''" and d = "''warm smile''"
      and ups = "[?file]" and now_ms = 1730000000000 and now_iso = ?iso and st = ?st
      and k = "''1730000000001''"] 3 4 5
  have c: "fst (post_loved_ones 1730000000000 ?iso ?good (Stored [?file]) ?st) =
        Response 200 (ProfileBody ?mom) \<and>
      lovedOnes (snd (post_loved_ones 1730000000000 ?iso ?good (Stored [?file]) ?st)) =
        [''1730000000001'' \<mapsto> ?dad, ''1730000000000'' \<mapsto> ?mom] \<and>
      get_loved_one ''1730000000000''
        (snd (post_loved_ones 1730000000000 ?iso ?good (Stored [?file]) ?st)) =
        Response 200 (ProfileBody ?mom) \<and>
      ''1730000000000'' \<notin> dom (lovedOnes ?st)"
    by (simp add: t n)
  have c_disk: "disk (snd (post_loved_ones 1730000000000 ?iso ?good (Stored [?file]) ?st)) =
      {''/uploads/1730000000001-7.jpg'', ''/uploads/1730000000000-42.png''}"
    by (simp add: post_loved_ones_def create_handler_def falsy_def Let_def n insert_commute)
  from c c_disk
  have c': "post_loved_ones 1730000000000 ?iso ?good (Stored [?file]) ?st =
     (Response 200 (ProfileBody ?mom),
      \<lparr>lovedOnes = [''1730000000001'' \<mapsto> ?dad, ''1730000000000'' \<mapsto> ?mom],
       disk = {''/uploads/1730000000001-7.jpg'', ''/uploads/1730000000000-42.png''}\<rparr>)"
    by (simp add: prod_eq_iff)
  from a' b' c c' show ?thesis by simp
qed

text \<open>
  C4, as stated, fails: the upload middleware runs before the handler, so the photo of a
  request without a name is on disk when the 400 is sent.
\<close>

theorem upload_precedes_validation_counterexample:
  "post_loved_ones 1730000000000 ''2024-10-27T03:33:20.000Z''
      \<lparr>body_name = None, body_description = Some ''warm smile'', body_relationship = None\<rparr>
      (Stored [\<lparr>up_now = 1730000000000, up_rnd = 42, up_ext = ''.png''\<rparr>]) no_profiles =
     (Response 400 (ErrorBody ''Name and description are required''),
      \<lparr>lovedOnes = Map.empty, disk = {''/uploads/1730000000000-42.png''}\<rparr>) \<and>
   disk no_profiles = {}"
  by (simp add: post_loved_ones_def create_handler_def filename_cb_def uploads_path_def
        no_profiles_def falsy_def js_toString.simps digit_char_def Let_def)

text \<open>
  C4, amended. The handler's validation comes before the handler's own effects: a request
  it rejects leaves the state the handler received unchanged. For the whole route, a
  rejected multipart request is answered 400 and stores no record, and the disk holds
  what it held before together with the files the upload middleware stored for this
  request; a request that is no multipart form changes nothing.
\<close>

theorem failed_validation_effects:
  "(falsy (body_name b) \<or> falsy (body_description b) \<or> files = None \<or> files = Some [] \<longrightarrow>
      snd (create_handler now_ms now_iso b files st) = st) \<and>
   (falsy (body_name b) \<or> falsy (body_description b) \<or> ups = [] \<longrightarrow>
      fst (post_loved_ones now_ms now_iso b (Stored ups) st) =
        Response 400
           (ErrorBody (if falsy (body_name b) \<or> falsy (body_description b)
                       then ''Name and description are required''
                       else ''At least one photo is required'')) \<and>
      lovedOnes (snd (post_loved_ones now_ms now_iso b (Stored ups) st)) = lovedOnes st \<and>
      disk (snd (post_loved_ones now_ms now_iso b (Stored ups) st)) =
        disk st \<union> set (map (\<lambda>f. uploads_path (filename_cb f)) ups)) \<and>
   snd (post_loved_ones now_ms now_iso b NotMultipart st) = st"
proof (intro conjI impI)
  assume "falsy (body_name b) \<or> falsy (body_description b) \<or> files = None \<or> files = Some []"
  then show "snd (create_handler now_ms now_iso b files st) = st"
    by (auto simp: create_handler_def)
next
  assume a: "falsy (body_name b) \<or> falsy (body_description b) \<or> ups = []"
  let ?st1 = "st\<lparr>disk := disk st \<union> set (map uploads_path (map filename_cb ups))\<rparr>"
  have c: "create_handler now_ms now_iso b (Some (map filename_cb ups)) ?st1 =
      (Response 400
           (ErrorBody (if falsy (body_name b) \<or> falsy (body_description b)
                       then ''Name and description are required''
                       else ''At least one photo is required'')), ?st1)"
    using a by (auto simp: create_handler_def)
  have p: "post_loved_ones now_ms now_iso b (Stored ups) st =
      create_handler now_ms now_iso b (Some (map filename_cb ups)) ?st1"
    by (simp only: post_loved_ones_def Let_def upload_outcome.case)
  show "fst (post_loved_ones now_ms now_iso b (Stored ups) st) =
        Response 400
           (ErrorBody (if falsy (body_name b) \<or> falsy (body_description b)
                       then ''Name and description are required''
                       else ''At least one photo is required''))"
    by (simp only: p c fst_conv)
  show "lovedOnes (snd (post_loved_ones now_ms now_iso b (Stored ups) st)) = lovedOnes st"
    unfolding p c by simp
  show "disk (snd (post_loved_ones now_ms now_iso b (Stored ups) st)) =
        disk st \<union> set (map (\<lambda>f. uploads_path (filename_cb f)) ups)"
    unfolding p c by (simp add: comp_def)
next
  show "snd (post_loved_ones now_ms now_iso b NotMultipart st) = st"
    by (simp add: post_loved_ones_def create_handler_def)
qed

text \<open>
  A request without a name and with one photo: 400, the handler changes nothing, no
  record is stored, and the photo's file is on disk.
\<close>

theorem failed_validation_effects_witness:
  "falsy None \<and>
   snd (create_handler 1730000000000 ''2024-10-27T03:33:20.000Z''
      \<lparr>body_name = None, body_description = Some ''warm smile'', body_relationship = None\<rparr>
      (Some [''1730000000000-42.png'']) no_profiles) = no_profiles \<and>
   fst (post_loved_ones 1730000000000 ''2024-10-27T03:33:20.000Z''
      \<lparr>body_name = None, body_description = Some ''warm smile'', body_relationship = None\<rparr>
      (Stored [\<lparr>up_now = 1730000000000, up_rnd = 42, up_ext = ''.png''\<rparr>]) no_profiles) =
     Response 400 (ErrorBody ''Name and description are required'') \<and>
   lovedOnes (snd (post_loved_ones 1730000000000 ''2024-10-27T03:33:20.000Z''
      \<lparr>body_name = None, body_description = Some ''warm smile'', body_relationship = None\<rparr>
      (Stored [\<lparr>up_now = 1730000000000, up_rnd = 42, up_ext = ''.png''\<rparr>]) no_profiles)) =
     lovedOnes no_profiles \<and>
   disk (snd (post_loved_ones 1730000000000 ''2024-10-27T03:33:20.000Z''
      \<lparr>body_name = None, body_description = Some ''warm smile'', body_relationship = None\<rparr>
      (Stored [\<lparr>up_now = 1730000000000, up_rnd = 42, up_ext = ''.png''\<rparr>]) no_profiles)) =
     {''/uploads/1730000000000-42.png''}"
proof -
  let ?bad = "\<lparr>body_name = None, body_description = Some ''warm smile'',
      body_relationship = None\<rparr>"
  have 1: "falsy None" "falsy (body_name ?bad)" by (simp_all add: falsy_def)
  have n: "uploads_path (filename_cb \<lparr>up_now = 1730000000000, up_rnd = 42, up_ext = ''.png''\<rparr>) =
      ''/uploads/1730000000000-42.png''"
    by (simp add: uploads_path_def filename_cb_def js_toString.simps digit_char_def)
  from failed_validation_effects [where b = ?bad and files = "Some [''1730000000000-42.png'']"
      and ups = "[\<lparr>up_now = 1730000000000, up_rnd = 42, up_ext = ''.png''\<rparr>]"
      and now_ms = 1730000000000 and now_iso = "''2024-10-27T03:33:20.000Z''"
      and st = no_profiles] 1 n
  show ?thesis
    by (simp add: no_profiles_def)
qed


subsection \<open>Uniqueness of ids\<close>

text \<open>
  A creation touches one key of the map, the id it makes; the keys of the map stay
  strings of digits.
\<close>

lemma create_handler_other_keys:
  "k \<noteq> js_toString now_ms \<Longrightarrow>
     lovedOnes (snd (create_handler now_ms now_iso b files st)) k = lovedOnes st k"
  by (simp add: create_handler_def Let_def split: option.splits list.splits)

lemma create_handler_created:
  "fst (create_handler now_ms now_iso b files st) = Response 200 (ProfileBody q) \<Longrightarrow>
     profile_id q = js_toString now_ms \<and>
     lovedOnes (snd (create_handler now_ms now_iso b files st)) (js_toString now_ms) = Some q"
  by (auto simp: create_handler_def Let_def split: option.splits list.splits if_splits)

lemma post_loved_ones_other_keys:
  "k \<noteq> js_toString now_ms \<Longrightarrow>
     lovedOnes (snd (post_loved_ones now_ms now_iso b up st)) k = lovedOnes st k"
  by (cases up) (simp_all add: post_loved_ones_def Let_def create_handler_other_keys)

lemma post_loved_ones_created:
  "fst (post_loved_ones now_ms now_iso b up st) = Response 200 (ProfileBody q) \<Longrightarrow>
     profile_id q = js_toString now_ms \<and>
     lovedOnes (snd (post_loved_ones now_ms now_iso b up st)) (js_toString now_ms) = Some q"
  by (cases up) (simp_all add: post_loved_ones_def Let_def create_handler_created)

lemma ids_only_create:
  "ids_only st \<Longrightarrow> ids_only (snd (post_loved_ones now_ms now_iso b up st))"
  unfolding ids_only_def
proof
  fix k
  assume inv: "\<forall>k \<in> dom (lovedOnes st). all_digits k"
    and k: "k \<in> dom (lovedOnes (snd (post_loved_ones now_ms now_iso b up st)))"
  show "all_digits k"
  proof (cases "k = js_toString now_ms")
    case True
    then show ?thesis by (simp add: all_digits_toString)
  next
    case False
    with k inv show ?thesis
      by (auto simp: post_loved_ones_other_keys)
  qed
qed

lemma ids_only_start: "ids_only no_profiles"
  by (simp add: ids_only_def no_profiles_def)

lemma ids_only_delete: "ids_only st \<Longrightarrow> ids_only (snd (delete_loved_one k st))"
  by (auto simp: ids_only_def delete_loved_one_def get_prop_def split: option.splits if_splits)

lemma ids_only_not_inherited:
  "ids_only st \<Longrightarrow> lovedOnes st k = Some p \<Longrightarrow> k \<notin> set object_prototype_keys"
  by (auto simp: ids_only_def dest: all_digits_not_inherited)

text \<open>
  C5, as stated, fails: two creations that read the same millisecond get the same id, and
  the second record replaces the first.
\<close>

theorem same_millisecond_counterexample:
  "fst (post_loved_ones 1730000000000 ''2024-10-27T03:33:20.000Z''
          \<lparr>body_name = Some ''Mom'', body_description = Some ''warm smile'',
            body_relationship = None\<rparr>
          (Stored [\<lparr>up_now = 1730000000000, up_rnd = 42, up_ext = ''.png''\<rparr>]) no_profiles) =
     Response 200 (ProfileBody
       \<lparr>profile_id = ''1730000000000'', name = ''Mom'', description = ''warm smile'',
         relationship = [], photos = [''/uploads/1730000000000-42.png''],
         createdAt = ''2024-10-27T03:33:20.000Z''\<rparr>) \<and>
   post_loved_ones 1730000000000 ''2024-10-27T03:33:20.000Z''
      \<lparr>body_name = Some ''Dad'', body_description = Some ''tall'', body_relationship = None\<rparr>
      (Stored [\<lparr>up_now = 1730000000000, up_rnd = 7, up_ext = ''.jpg''\<rparr>])
      (snd (post_loved_ones 1730000000000 ''2024-10-27T03:33:20.000Z''
          \<lparr>body_name = Some ''Mom'', body_description = Some ''warm smile'',
            body_relationship = None\<rparr>
          (Stored [\<lparr>up_now = 1730000000000, up_rnd = 42, up_ext = ''.png''\<rparr>]) no_profiles)) =
     (Response 200 (ProfileBody
        \<lparr>profile_id = ''1730000000000'', name = ''Dad'', description = ''tall'',
          relationship = [], photos = [''/uploads/1730000000000-7.jpg''],
          createdAt = ''2024-10-27T03:33:20.000Z''\<rparr>),
      \<lparr>lovedOnes = [''1730000000000'' \<mapsto>
          \<lparr>profile_id = ''1730000000000'', name = ''Dad'', description = ''tall'',
            relationship = [], photos = [''/uploads/1730000000000-7.jpg''],
            createdAt = ''2024-10-27T03:33:20.000Z''\<rparr>],
        disk = {''/uploads/1730000000000-42.png'', ''/uploads/1730000000000-7.jpg''}\<rparr>)"
  by (simp add: post_loved_ones_def create_handler_def filename_cb_def uploads_path_def
        no_profiles_def falsy_def js_toString.simps digit_char_def Let_def insert_commute)

text \<open>
  C5, amended. The id of a created profile is the decimal string of the clock reading
  (milliseconds) of its creation, and the map holds the new record under it (in place of
  any record that was there). Creations with different clock readings get different
  ids, and a creation leaves a profile stored at another reading as it is; so of two
  successful creations in a row with different readings, both records are in the map under
  their own ids.
\<close>

theorem ids_distinct_when_clock_differs:
  "(fst (post_loved_ones t1 iso1 b1 up1 st) = Response 200 (ProfileBody p1) \<longrightarrow>
      profile_id p1 = js_toString t1 \<and>
      lovedOnes (snd (post_loved_ones t1 iso1 b1 up1 st)) (js_toString t1) = Some p1) \<and>
   (t1 \<noteq> t2 \<longrightarrow> js_toString t1 \<noteq> js_toString t2) \<and>
   (t1 \<noteq> t2 \<and> lovedOnes st (js_toString t1) = Some p \<longrightarrow>
      lovedOnes (snd (post_loved_ones t2 iso2 b2 up2 st)) (js_toString t1) = Some p) \<and>
   (t1 \<noteq> t2 \<and>
    fst (post_loved_ones t1 iso1 b1 up1 st) = Response 200 (ProfileBody p1) \<and>
    fst (post_loved_ones t2 iso2 b2 up2 (snd (post_loved_ones t1 iso1 b1 up1 st))) =
      Response 200 (ProfileBody p2) \<longrightarrow>
      profile_id p1 \<noteq> profile_id p2 \<and>
      lovedOnes (snd (post_loved_ones t2 iso2 b2 up2 (snd (post_loved_ones t1 iso1 b1 up1 st))))
        (profile_id p1) = Some p1 \<and>
      lovedOnes (snd (post_loved_ones t2 iso2 b2 up2 (snd (post_loved_ones t1 iso1 b1 up1 st))))
        (profile_id p2) = Some p2)"
proof (intro conjI impI)
  assume "fst (post_loved_ones t1 iso1 b1 up1 st) = Response 200 (ProfileBody p1)"
  then show "profile_id p1 = js_toString t1"
    by (simp add: post_loved_ones_created)
next
  assume "fst (post_loved_ones t1 iso1 b1 up1 st) = Response 200 (ProfileBody p1)"
  then show "lovedOnes (snd (post_loved_ones t1 iso1 b1 up1 st)) (js_toString t1) = Some p1"
    by (rule post_loved_ones_created [THEN conjunct2])
next
  assume "t1 \<noteq> t2"
  then show "js_toString t1 \<noteq> js_toString t2"
    using js_toString_inj by blast
next
  assume a: "t1 \<noteq> t2 \<and> lovedOnes st (js_toString t1) = Some p"
  then have "js_toString t1 \<noteq> js_toString t2"
    using js_toString_inj by blast
  with a show "lovedOnes (snd (post_loved_ones t2 iso2 b2 up2 st)) (js_toString t1) = Some p"
    by (simp add: post_loved_ones_other_keys)
next
  let ?s1 = "snd (post_loved_ones t1 iso1 b1 up1 st)"
  let ?s2 = "snd (post_loved_ones t2 iso2 b2 up2 ?s1)"
  assume a: "t1 \<noteq> t2 \<and>
    fst (post_loved_ones t1 iso1 b1 up1 st) = Response 200 (ProfileBody p1) \<and>
    fst (post_loved_ones t2 iso2 b2 up2 ?s1) = Response 200 (ProfileBody p2)"
  then have 1: "profile_id p1 = js_toString t1" "lovedOnes ?s1 (js_toString t1) = Some p1"
    using post_loved_ones_created [of t1 iso1 b1 up1 st p1] by blast+
  from a have 2: "profile_id p2 = js_toString t2" "lovedOnes ?s2 (js_toString t2) = Some p2"
    using post_loved_ones_created [of t2 iso2 b2 up2 ?s1 p2] by blast+
  from a have ne: "js_toString t1 \<noteq> js_toString t2"
    using js_toString_inj by blast
  show "profile_id p1 \<noteq> profile_id p2" by (simp add: 1 2 ne)
  show "lovedOnes ?s2 (profile_id p1) = Some p1"
    using ne by (simp add: 1 post_loved_ones_other_keys)
  show "lovedOnes ?s2 (profile_id p2) = Some p2"
    by (simp add: 2)
qed


text \<open>
  Mom at reading 1730000000000, Dad one millisecond later: two ids, and Mom's record is
  still stored.
\<close>

theorem ids_distinct_when_clock_differs_witness:
  "(1730000000000::nat) \<noteq> 1730000000001 \<and>
   fst (post_loved_ones 1730000000000 ''2024-10-27T03:33:20.000Z''
          \<lparr>body_name = Some ''Mom'', body_description = Some ''warm smile'',
            body_relationship = None\<rparr>
          (Stored [\<lparr>up_now = 1730000000000, up_rnd = 42, up_ext = ''.png''\<rparr>]) no_profiles) =
     Response 200 (ProfileBody
       \<lparr>profile_id = ''1730000000000'', name = ''Mom'', description = ''warm smile'',
         relationship = [], photos = [''/uploads/1730000000000-42.png''],
         createdAt = ''2024-10-27T03:33:20.000Z''\<rparr>) \<and>
   fst (post_loved_ones 1730000000001 ''2024-10-27T03:33:20.001Z''
      \<lparr>body_name = Some ''Dad'', body_description = Some ''tall'', body_relationship = None\<rparr>
      (Stored [\<lparr>up_now = 1730000000001, up_rnd = 7, up_ext = ''.jpg''\<rparr>])
      (snd (post_loved_ones 1730000000000 ''2024-10-27T03:33:20.000Z''
          \<lparr>body_name = Some ''Mom'', body_description = Some ''warm smile'',
            body_relationship = None\<rparr>
          (Stored [\<lparr>up_now = 1730000000000, up_rnd = 42, up_ext = ''.png''\<rparr>]) no_profiles))) =
     Response 200 (ProfileBody
        \<lparr>profile_id = ''1730000000001'', name = ''Dad'', description = ''tall'',
          relationship = [], photos = [''/uploads/1730000000001-7.jpg''],
          createdAt = ''2024-10-27T03:33:20.001Z''\<rparr>) \<and>
   lovedOnes (snd (post_loved_ones 1730000000001 ''2024-10-27T03:33:20.001Z''
      \<lparr>body_name = Some ''Dad'', body_description = Some ''tall'', body_relationship = None\<rparr>
      (Stored [\<lparr>up_now = 1730000000001, up_rnd = 7, up_ext = ''.jpg''\<rparr>])
      (snd (post_loved_ones 1730000000000 ''2024-10-27T03:33:20.000Z''
          \<lparr>body_name = Some ''Mom'', body_description = Some ''warm smile'',
            body_relationship = None\<rparr>
          (Stored [\<lparr>up_now = 1730000000000, up_rnd = 42, up_ext = ''.png''\<rparr>]) no_profiles))))
      ''1730000000000'' =
     Some \<lparr>profile_id = ''1730000000000'', name = ''Mom'', description = ''warm smile'',
         relationship = [], photos = [''/uploads/1730000000000-42.png''],
         createdAt = ''2024-10-27T03:33:20.000Z''\<rparr>"
proof -
  let ?mom = "\<lparr>profile_id = ''1730000000000'', name = ''Mom'', description = ''warm smile'',
         relationship = [], photos = [''/uploads/1730000000000-42.png''],
         createdAt = ''2024-10-27T03:33:20.000Z''\<rparr>"
  let ?dad = "\<lparr>profile_id = ''1730000000001'', name = ''Dad'', description = ''tall'',
          relationship = [], photos = [''/uploads/1730000000001-7.jpg''],
          createdAt = ''2024-10-27T03:33:20.001Z''\<rparr>"
  let ?b1 = "\<lparr>body_name = Some ''Mom'', body_description = Some ''warm smile'',
            body_relationship = None\<rparr>"
  let ?b2 = "\<lparr>body_name = Some ''Dad'', body_description = Some ''tall'',
            body_relationship = None\<rparr>"
  let ?u1 = "Stored [\<lparr>up_now = 1730000000000, up_rnd = 42, up_ext = ''.png''\<rparr>]"
  let ?u2 = "Stored [\<lparr>up_now = 1730000000001, up_rnd = 7, up_ext = ''.jpg''\<rparr>]"
  let ?s1 = "snd (post_loved_ones 1730000000000 ''2024-10-27T03:33:20.000Z'' ?b1 ?u1 no_profiles)"
  have ne: "(1730000000000::nat) \<noteq> 1730000000001" by simp
  have r1: "fst (post_loved_ones 1730000000000 ''2024-10-27T03:33:20.000Z'' ?b1 ?u1 no_profiles) =
      Response 200 (ProfileBody ?mom)"
    by (simp add: post_loved_ones_def create_handler_def filename_cb_def uploads_path_def
        no_profiles_def falsy_def js_toString.simps digit_char_def Let_def)
  have r2: "fst (post_loved_ones 1730000000001 ''2024-10-27T03:33:20.001Z'' ?b2 ?u2 ?s1) =
      Response 200 (ProfileBody ?dad)"
    by (simp add: post_loved_ones_def create_handler_def filename_cb_def uploads_path_def
        falsy_def js_toString.simps digit_char_def Let_def)
  from ids_distinct_when_clock_differs [where ?t1.0 = 1730000000000 and ?t2.0 = 1730000000001
      and ?iso1.0 = "''2024-10-27T03:33:20.000Z''" and ?iso2.0 = "''2024-10-27T03:33:20.001Z''"
      and ?b1.0 = ?b1 and ?b2.0 = ?b2 and ?up1.0 = ?u1 and ?up2.0 = ?u2 and st = no_profiles
      and ?p1.0 = ?mom and ?p2.0 = ?dad] ne r1 r2
  have "lovedOnes (snd (post_loved_ones 1730000000001 ''2024-10-27T03:33:20.001Z'' ?b2 ?u2 ?s1))
      (profile_id ?mom) = Some ?mom"
    by blast
  with ne r1 r2 show ?thesis by simp
qed


subsection \<open>Deletion\<close>

text \<open>
  Deleting a stored profile unlinks each of its photos that is on disk, skips the others,
  and removes the record: reading the id afterwards gives 404, and so does deleting it
  again. Deleting an id that is neither stored nor the name of a member of
  \<^verbatim>\<open>Object.prototype\<close> gives 404 and changes nothing.
\<close>

lemma delete_stored_profile:
  assumes "lovedOnes st k = Some p"
  shows "delete_loved_one k st =
           (Response 200 (MessageBody ''Loved one profile deleted''),
            st\<lparr>disk := disk st - set (photos p), lovedOnes := (lovedOnes st)(k := None)\<rparr>)"
  using assms by (simp add: delete_loved_one_def get_prop_def delete_photos_eq)

lemma get_after_delete:
  assumes "lovedOnes st k = Some p" and "k \<notin> set object_prototype_keys"
  shows "get_loved_one k (snd (delete_loved_one k st)) =
           Response 404 (ErrorBody ''Loved one not found'')"
  using assms by (simp add: delete_stored_profile get_loved_one_def get_prop_def)

lemma delete_again:
  assumes "lovedOnes st k = Some p" and "k \<notin> set object_prototype_keys"
  shows "delete_loved_one k (snd (delete_loved_one k st)) =
           (Response 404 (ErrorBody ''Loved one not found''), snd (delete_loved_one k st))"
  using assms by (simp add: delete_stored_profile) (simp add: delete_loved_one_def get_prop_def)

lemma delete_unknown:
  assumes "lovedOnes st k = None" and "k \<notin> set object_prototype_keys"
  shows "delete_loved_one k st = (Response 404 (ErrorBody ''Loved one not found''), st)"
  using assms by (simp add: delete_loved_one_def get_prop_def)

lemma delete_inherited:
  assumes "lovedOnes st k = None" and "k \<in> set object_prototype_keys"
  shows "delete_loved_one k st = (Unhandled ''TypeError'', st)"
  using assms by (simp add: delete_loved_one_def get_prop_def)

text \<open>
  C2. The claim's last part says that deleting an id that is not in the store is answered
  404. For the id \<^verbatim>\<open>constructor\<close>, which is in no store, the lookup finds the member the
  map inherits, the 404 guard is passed, and \<^verbatim>\<open>lovedOne.photos.forEach\<close> throws: the handler
  sends no 404 (the state is unchanged).
\<close>

theorem delete_inherited_key_throws:
  "lovedOnes no_profiles ''constructor'' = None \<and>
   delete_loved_one ''constructor'' no_profiles = (Unhandled ''TypeError'', no_profiles)"
  by (simp add: delete_loved_one_def get_prop_def no_profiles_def object_prototype_keys_def)

text \<open>
  C10. A successful delete of a stored profile \<open>d\<close> leaves the map's entry for every other
  id \<open>x\<close> as it was, photo list included; and when the photo paths of \<open>x\<close> share nothing with
  those of \<open>d\<close>, each of them is on disk afterwards exactly if it was before.
\<close>

theorem delete_leaves_other_profiles:
  "lovedOnes st d = Some pd \<and> x \<noteq> d \<longrightarrow>
     fst (delete_loved_one d st) = Response 200 (MessageBody ''Loved one profile deleted'') \<and>
     lovedOnes (snd (delete_loved_one d st)) x = lovedOnes st x \<and>
     (lovedOnes st x = Some px \<and> set (photos px) \<inter> set (photos pd) = {} \<longrightarrow>
        lovedOnes (snd (delete_loved_one d st)) x = Some px \<and>
        (\<forall>f \<in> set (photos px). (f \<in> disk (snd (delete_loved_one d st))) = (f \<in> disk st)))"
  by (auto simp: delete_stored_profile)


text \<open>
  Mom and Dad, one photo each: deleting Mom leaves Dad's record and Dad's photo.
\<close>

theorem delete_leaves_other_profiles_witness:
  "delete_loved_one ''1730000000000''
     \<lparr>lovedOnes = [''1730000000000'' \<mapsto>
          \<lparr>profile_id = ''1730000000000'', name = ''Mom'', description = ''warm smile'',
            relationship = [], photos = [''/uploads/1730000000000-42.png''],
            createdAt = ''2024-10-27T03:33:20.000Z''\<rparr>,
        ''1730000000001'' \<mapsto>
          \<lparr>profile_id = ''1730000000001'', name = ''Dad'', description = ''tall'',
            relationship = [], photos = [''/uploads/1730000000001-7.jpg''],
            createdAt = ''2024-10-27T03:33:20.001Z''\<rparr>],
      disk = {''/uploads/1730000000000-42.png'', ''/uploads/1730000000001-7.jpg''}\<rparr> =
   (Response 200 (MessageBody ''Loved one profile deleted''),
    \<lparr>lovedOnes = [''1730000000001'' \<mapsto>
          \<lparr>profile_id = ''1730000000001'', name = ''Dad'', description = ''tall'',
            relationship = [], photos = [''/uploads/1730000000001-7.jpg''],
            createdAt = ''2024-10-27T03:33:20.001Z''\<rparr>],
      disk = {''/uploads/1730000000001-7.jpg''}\<rparr>) \<and>
   ''/uploads/1730000000001-7.jpg'' \<in> disk (snd (delete_loved_one ''1730000000000''
     \<lparr>lovedOnes = [''1730000000000'' \<mapsto>
          \<lparr>profile_id = ''1730000000000'', name = ''Mom'', description = ''warm smile'',
            relationship = [], photos = [''/uploads/1730000000000-42.png''],
            createdAt = ''2024-10-27T03:33:20.000Z''\<rparr>,
        ''1730000000001'' \<mapsto>
          \<lparr>profile_id = ''1730000000001'', name = ''Dad'', description = ''tall'',
            relationship = [], photos = [''/uploads/1730000000001-7.jpg''],
            createdAt = ''2024-10-27T03:33:20.001Z''\<rparr>],
      disk = {''/uploads/1730000000000-42.png'', ''/uploads/1730000000001-7.jpg''}\<rparr>))"
proof -
  let ?mom = "\<lparr>profile_id = ''1730000000000'', name = ''Mom'', description = ''warm smile'',
            relationship = [], photos = [''/uploads/1730000000000-42.png''],
            createdAt = ''2024-10-27T03:33:20.000Z''\<rparr>"
  let ?dad = "\<lparr>profile_id = ''1730000000001'', name = ''Dad'', description = ''tall'',
            relationship = [], photos = [''/uploads/1730000000001-7.jpg''],
            createdAt = ''2024-10-27T03:33:20.001Z''\<rparr>"
  let ?st = "\<lparr>lovedOnes = [''1730000000000'' \<mapsto> ?mom, ''1730000000001'' \<mapsto> ?dad],
      disk = {''/uploads/1730000000000-42.png'', ''/uploads/1730000000001-7.jpg''}\<rparr>"
  have h: "lovedOnes ?st ''1730000000000'' = Some ?mom \<and> ''1730000000001'' \<noteq> ''1730000000000''"
    by simp
  have x: "lovedOnes ?st ''1730000000001'' = Some ?dad \<and>
      set (photos ?dad) \<inter> set (photos ?mom) = {}"
    by simp
  from delete_leaves_other_profiles [where st = ?st and d = "''1730000000000''" and pd = ?mom
      and x = "''1730000000001''" and px = ?dad] h x
  have "\<forall>f \<in> set (photos ?dad).
      (f \<in> disk (snd (delete_loved_one ''1730000000000'' ?st))) = (f \<in> disk ?st)"
    by blast
  then have on_disk: "''/uploads/1730000000001-7.jpg'' \<in>
      disk (snd (delete_loved_one ''1730000000000'' ?st))"
    by simp
  have e: "delete_loved_one ''1730000000000'' ?st =
     (Response 200 (MessageBody ''Loved one profile deleted''),
      \<lparr>lovedOnes = [''1730000000001'' \<mapsto> ?dad],
        disk = {''/uploads/1730000000001-7.jpg''}\<rparr>)"
    by (simp add: delete_loved_one_def get_prop_def fun_upd_twist)
  from e on_disk show ?thesis by simp
qed


section \<open>Facts about the forwarder\<close>

text \<open>
  C6, as stated, fails: with no credential configured, a request without a prompt is
  answered 400, and one whose profile id is unknown is answered 404; the validation and the
  lookup come before the credential check.
\<close>

theorem unconfigured_counterexample:
  "post_generate None echo_api None = (Response 400 (ErrorBody ''Prompt is required''), []) \<and>
   post_generate_with_loved_one None echo_api (Some ''beach day'') (Some ''12345'') no_profiles =
     (Response 404 (ErrorBody ''Loved one not found''), [])"
  by (simp add: post_generate_def post_generate_with_loved_one_def falsy_def get_prop_def
        no_profiles_def object_prototype_keys_def)

text \<open>
  C6, amended. With no credential configured, neither generation route issues an outbound
  request, whatever the request. A request that passes the checks made before the
  credential check (a prompt; on the loved-one route also an id of a stored profile) is
  answered 500 with the configuration error.
\<close>

theorem unconfigured_no_outbound_call:
  "falsy key \<longrightarrow>
     snd (post_generate key api prompt) = [] \<and>
     snd (post_generate_with_loved_one key api prompt lovedOneId st) = [] \<and>
     (\<not> falsy prompt \<longrightarrow>
        fst (post_generate key api prompt) =
          Response 500 (ErrorBody ''OpenAI API key not configured on server. Please set OPENAI_API_KEY environment variable.'')) \<and>
     (\<not> falsy prompt \<and> i \<noteq> [] \<and> lovedOnes st i = Some p \<longrightarrow>
        fst (post_generate_with_loved_one key api prompt (Some i) st) =
          Response 500 (ErrorBody ''OpenAI API key not configured on server''))"
proof (intro impI conjI)
  assume k: "falsy key"
  show "snd (post_generate key api prompt) = []"
    using k by (simp add: post_generate_def)
  show "snd (post_generate_with_loved_one key api prompt lovedOneId st) = []"
    using k by (simp add: post_generate_with_loved_one_def Let_def split: lookup.splits)
  {
    assume "\<not> falsy prompt"
    then show "fst (post_generate key api prompt) =
          Response 500 (ErrorBody ''OpenAI API key not configured on server. Please set OPENAI_API_KEY environment variable.'')"
      using k by (simp add: post_generate_def)
  }
  {
    assume "\<not> falsy prompt \<and> i \<noteq> [] \<and> lovedOnes st i = Some p"
    then show "fst (post_generate_with_loved_one key api prompt (Some i) st) =
          Response 500 (ErrorBody ''OpenAI API key not configured on server'')"
      using k by (simp add: post_generate_with_loved_one_def Let_def get_prop_def falsy_def)
  }
qed

text \<open>
  No credential, prompt "beach day": the plain route and the loved-one route (for Mom's
  profile) both answer 500 and call nothing.
\<close>

theorem unconfigured_no_outbound_call_witness:
  "falsy None \<and> \<not> falsy (Some ''beach day'') \<and>
   post_generate None echo_api (Some ''beach day'') =
     (Response 500 (ErrorBody ''OpenAI API key not configured on server. Please set OPENAI_API_KEY environment variable.''), []) \<and>
   post_generate_with_loved_one None echo_api (Some ''beach day'') (Some ''1730000000000'')
       (snd (post_loved_ones 1730000000000 ''2024-10-27T03:33:20.000Z''
          \<lparr>body_name = Some ''Mom'', body_description = Some ''warm smile'',
            body_relationship = None\<rparr>
          (Stored [\<lparr>up_now = 1730000000000, up_rnd = 42, up_ext = ''.png''\<rparr>]) no_profiles)) =
     (Response 500 (ErrorBody ''OpenAI API key not configured on server''), [])"
proof -
  let ?mom = "\<lparr>profile_id = ''1730000000000'', name = ''Mom'', description = ''warm smile'',
          relationship = [], photos = [''/uploads/1730000000000-42.png''],
          createdAt = ''2024-10-27T03:33:20.000Z''\<rparr>"
  let ?st = "\<lparr>lovedOnes = [''1730000000000'' \<mapsto> ?mom],
      disk = {''/uploads/1730000000000-42.png''}\<rparr>"
  have f: "falsy None" "\<not> falsy (Some ''beach day'')"
    by (simp_all add: falsy_def)
  have s: "lovedOnes ?st ''1730000000000'' = Some ?mom" by simp
  from unconfigured_no_outbound_call [of None echo_api "Some ''beach day''"
      "Some ''1730000000000''" ?st "''1730000000000''" ?mom] f s
  show ?thesis
    unfolding scenario_state by (simp add: prod_eq_iff)
qed

text \<open>
  C7, as stated, fails: a request with an unknown profile id and no prompt is answered 400,
  not 404; the presence check on the prompt comes before the lookup.
\<close>

theorem unknown_loved_one_counterexample:
  "post_generate_with_loved_one (Some ''sk-test'') echo_api None (Some ''12345'') no_profiles =
     (Response 400 (ErrorBody ''Prompt and lovedOneId are required''), [])"
  by (simp add: post_generate_with_loved_one_def falsy_def)

text \<open>
  C7, amended. A request that lacks the prompt or the profile id is answered 400 and calls
  nothing. A request with a prompt whose profile id is not stored, and is not the name of a
  member every object inherits, is answered 404 and calls nothing.
\<close>

theorem unknown_loved_one_no_outbound_call:
  "(falsy prompt \<or> falsy lovedOneId \<longrightarrow>
      post_generate_with_loved_one key api prompt lovedOneId st =
        (Response 400 (ErrorBody ''Prompt and lovedOneId are required''), [])) \<and>
   (\<not> falsy prompt \<and> i \<noteq> [] \<and> lovedOnes st i = None \<and> i \<notin> set object_prototype_keys \<longrightarrow>
      post_generate_with_loved_one key api prompt (Some i) st =
        (Response 404 (ErrorBody ''Loved one not found''), []))"
  by (auto simp: post_generate_with_loved_one_def Let_def get_prop_def falsy_def)

text \<open>
  On the empty store: without a profile id the answer is 400, with the unknown id 12345 it
  is 404; no call is made.
\<close>

theorem unknown_loved_one_no_outbound_call_witness:
  "falsy None \<and> \<not> falsy (Some ''beach day'') \<and> ''12345'' \<noteq> [] \<and>
   lovedOnes no_profiles ''12345'' = None \<and> ''12345'' \<notin> set object_prototype_keys \<and>
   post_generate_with_loved_one (Some ''sk-test'') echo_api (Some ''beach day'') None no_profiles =
     (Response 400 (ErrorBody ''Prompt and lovedOneId are required''), []) \<and>
   post_generate_with_loved_one (Some ''sk-test'') echo_api (Some ''beach day'') (Some ''12345'')
       no_profiles =
     (Response 404 (ErrorBody ''Loved one not found''), [])"
proof -
  have f: "falsy None" "\<not> falsy (Some ''beach day'')" "''12345'' \<noteq> []"
    by (simp_all add: falsy_def)
  have s: "lovedOnes no_profiles ''12345'' = None" by (simp add: no_profiles_def)
  have k: "''12345'' \<notin> set object_prototype_keys" by (simp add: object_prototype_keys_def)
  from unknown_loved_one_no_outbound_call [of "Some ''beach day''" None "Some ''sk-test''"
      echo_api no_profiles "''12345''"] f s k
  have a: "post_generate_with_loved_one (Some ''sk-test'') echo_api (Some ''beach day'') None
      no_profiles = (Response 400 (ErrorBody ''Prompt and lovedOneId are required''), [])"
    by blast
  from unknown_loved_one_no_outbound_call [of "Some ''beach day''" "Some ''12345''"
      "Some ''sk-test''" echo_api no_profiles "''12345''"] f s k
  have b: "post_generate_with_loved_one (Some ''sk-test'') echo_api (Some ''beach day'')
      (Some ''12345'') no_profiles = (Response 404 (ErrorBody ''Loved one not found''), [])"
    by blast
  from f s k a b show ?thesis by simp
qed

text \<open>
  The lookup \<^verbatim>\<open>lovedOnes[lovedOneId]\<close> also finds the members every object inherits: for
  the id \<^verbatim>\<open>constructor\<close> the route goes on and calls the service.
\<close>

lemma inherited_key_reaches_service:
  "post_generate_with_loved_one (Some ''sk-test'') echo_api (Some ''beach day'')
       (Some ''constructor'') no_profiles =
     (Response 200 (ImageBody (Some ''https://images.example/1.png'')
        (Some (''beach day. The scene includes Object, undefined. '' @ style_suffix))
        (Some ''Object'')),
      [\<lparr>out_prompt = ''beach day. The scene includes Object, undefined. '' @ style_suffix,
         out_key = ''sk-test''\<rparr>])"
  by (simp add: post_generate_with_loved_one_def falsy_def get_prop_def no_profiles_def
        object_prototype_keys_def forward_def echo_api_def inheritedPrompt_def template_def
        inherited_name_def)

text \<open>
  C8. The final prompt starts with the request's prompt, contains the profile's name and
  description, contains the relationship sentence when the relationship is not empty, and
  ends with the fixed stylistic suffix; it is the template sentence with these values in
  it. It is the prompt of the one call the route makes for a stored profile.
\<close>

theorem enhanced_prompt_shape:
  "prefix prompt (enhancedPrompt prompt p) \<and>
   sublist (name p) (enhancedPrompt prompt p) \<and>
   sublist (description p) (enhancedPrompt prompt p) \<and>
   (relationship p \<noteq> [] \<longrightarrow>
      sublist (''They were my '' @ relationship p @ ''.'') (enhancedPrompt prompt p) \<and>
      enhancedPrompt prompt p =
        prompt @ ''. The scene includes '' @ name p @ '', '' @ description p @ ''. ''
          @ ''They were my '' @ relationship p @ ''.'' @ style_suffix) \<and>
   (relationship p = [] \<longrightarrow>
      enhancedPrompt prompt p =
        prompt @ ''. The scene includes '' @ name p @ '', '' @ description p @ ''. '' @ style_suffix) \<and>
   suffix style_suffix (enhancedPrompt prompt p) \<and>
   (k \<noteq> [] \<and> prompt \<noteq> [] \<and> i \<noteq> [] \<and> lovedOnes st i = Some p \<longrightarrow>
      snd (post_generate_with_loved_one (Some k) api (Some prompt) (Some i) st) =
        [\<lparr>out_prompt = enhancedPrompt prompt p, out_key = k\<rparr>])"
proof (intro conjI impI)
  show "prefix prompt (enhancedPrompt prompt p)"
    by (simp add: enhancedPrompt_def template_def)
  have n: "enhancedPrompt prompt p =
      (prompt @ ''. The scene includes '') @ name p @
      ('', '' @ description p @ ''. ''
        @ (if relationship p = [] then [] else ''They were my '' @ relationship p @ ''.'')
        @ style_suffix)"
    by (simp add: enhancedPrompt_def template_def falsy_def)
  show "sublist (name p) (enhancedPrompt prompt p)"
    unfolding n by (rule sublist_appendI)
  have d: "enhancedPrompt prompt p =
      (prompt @ ''. The scene includes '' @ name p @ '', '') @ description p @
      (''. '' @ (if relationship p = [] then [] else ''They were my '' @ relationship p @ ''.'')
        @ style_suffix)"
    by (simp add: enhancedPrompt_def template_def falsy_def)
  show "sublist (description p) (enhancedPrompt prompt p)"
    unfolding d by (rule sublist_appendI)
  show "suffix style_suffix (enhancedPrompt prompt p)"
    by (simp add: enhancedPrompt_def template_def suffix_def)
next
  assume r: "relationship p \<noteq> []"
  then have e: "enhancedPrompt prompt p =
      (prompt @ ''. The scene includes '' @ name p @ '', '' @ description p @ ''. '') @
      (''They were my '' @ relationship p @ ''.'') @ style_suffix"
    by (simp add: enhancedPrompt_def template_def falsy_def)
  then show "sublist (''They were my '' @ relationship p @ ''.'') (enhancedPrompt prompt p)"
    using sublist_appendI by metis
  from e show "enhancedPrompt prompt p =
        prompt @ ''. The scene includes '' @ name p @ '', '' @ description p @ ''. ''
          @ ''They were my '' @ relationship p @ ''.'' @ style_suffix"
    by simp
next
  assume "relationship p = []"
  then show "enhancedPrompt prompt p =
        prompt @ ''. The scene includes '' @ name p @ '', '' @ description p @ ''. '' @ style_suffix"
    by (simp add: enhancedPrompt_def template_def falsy_def)
next
  assume "k \<noteq> [] \<and> prompt \<noteq> [] \<and> i \<noteq> [] \<and> lovedOnes st i = Some p"
  then show "snd (post_generate_with_loved_one (Some k) api (Some prompt) (Some i) st) =
        [\<lparr>out_prompt = enhancedPrompt prompt p, out_key = k\<rparr>]"
    by (simp add: post_generate_with_loved_one_def falsy_def get_prop_def forward_def
             split: upstream_reply.splits)
qed


text \<open>
  The scenario: profile Mom, "warm smile", prompt "beach day". The call's prompt contains
  "Mom" and "warm smile" and ends with the suffix. With the relationship "mother" the
  prompt has the sentence "They were my mother."
\<close>

theorem enhanced_prompt_shape_witness:
  "snd (post_generate_with_loved_one (Some ''sk-test'') echo_api (Some ''beach day'')
          (Some ''1730000000000'')
          (snd (post_loved_ones 1730000000000 ''2024-10-27T03:33:20.000Z''
             \<lparr>body_name = Some ''Mom'', body_description = Some ''warm smile'',
               body_relationship = None\<rparr>
             (Stored [\<lparr>up_now = 1730000000000, up_rnd = 42, up_ext = ''.png''\<rparr>])
             no_profiles))) =
     [\<lparr>out_prompt = ''beach day. The scene includes Mom, warm smile.  Create this as a vintage dreamlike polaroid photograph with surreal, ethereal qualities, soft focus, nostalgic muted tones, and a touch of the uncanny.'',
        out_key = ''sk-test''\<rparr>] \<and>
   sublist ''Mom'' ''beach day. The scene includes Mom, warm smile.  Create this as a vintage dreamlike polaroid photograph with surreal, ethereal qualities, soft focus, nostalgic muted tones, and a touch of the uncanny.'' \<and>
   sublist ''warm smile'' ''beach day. The scene includes Mom, warm smile.  Create this as a vintage dreamlike polaroid photograph with surreal, ethereal qualities, soft focus, nostalgic muted tones, and a touch of the uncanny.'' \<and>
   suffix style_suffix ''beach day. The scene includes Mom, warm smile.  Create this as a vintage dreamlike polaroid photograph with surreal, ethereal qualities, soft focus, nostalgic muted tones, and a touch of the uncanny.'' \<and>
   enhancedPrompt ''beach day''
     \<lparr>profile_id = ''1730000000000'', name = ''Mom'', description = ''warm smile'',
       relationship = ''mother'', photos = [''/uploads/1730000000000-42.png''],
       createdAt = ''2024-10-27T03:33:20.000Z''\<rparr> =
     ''beach day. The scene includes Mom, warm smile. They were my mother. Create this as a vintage dreamlike polaroid photograph with surreal, ethereal qualities, soft focus, nostalgic muted tones, and a touch of the uncanny.''"
proof -
  let ?mom = "\<lparr>profile_id = ''1730000000000'', name = ''Mom'', description = ''warm smile'',
          relationship = [], photos = [''/uploads/1730000000000-42.png''],
          createdAt = ''2024-10-27T03:33:20.000Z''\<rparr>"
  let ?st = "\<lparr>lovedOnes = [''1730000000000'' \<mapsto> ?mom],
      disk = {''/uploads/1730000000000-42.png''}\<rparr>"
  have e: "enhancedPrompt ''beach day'' ?mom = ''beach day. The scene includes Mom, warm smile.  Create this as a vintage dreamlike polaroid photograph with surreal, ethereal qualities, soft focus, nostalgic muted tones, and a touch of the uncanny.''"
    by (simp add: enhancedPrompt_def template_def falsy_def style_suffix_def)
  have h: "''sk-test'' \<noteq> [] \<and> ''beach day'' \<noteq> [] \<and> ''1730000000000'' \<noteq> [] \<and>
      lovedOnes ?st ''1730000000000'' = Some ?mom"
    by simp
  from enhanced_prompt_shape [of "''beach day''" ?mom "''sk-test''" "''1730000000000''" ?st echo_api] h
  have "snd (post_generate_with_loved_one (Some ''sk-test'') echo_api (Some ''beach day'')
          (Some ''1730000000000'') ?st) =
          [\<lparr>out_prompt = enhancedPrompt ''beach day'' ?mom, out_key = ''sk-test''\<rparr>] \<and>
        sublist (name ?mom) (enhancedPrompt ''beach day'' ?mom) \<and>
        sublist (description ?mom) (enhancedPrompt ''beach day'' ?mom) \<and>
        suffix style_suffix (enhancedPrompt ''beach day'' ?mom)"
    by blast
  moreover
  let ?mother = "\<lparr>profile_id = ''1730000000000'', name = ''Mom'', description = ''warm smile'',
       relationship = ''mother'', photos = [''/uploads/1730000000000-42.png''],
       createdAt = ''2024-10-27T03:33:20.000Z''\<rparr>"
  have r: "relationship ?mother \<noteq> []" by simp
  from enhanced_prompt_shape [where prompt = "''beach day''" and p = ?mother] r
  have "enhancedPrompt ''beach day'' ?mother =
      ''beach day'' @ ''. The scene includes '' @ name ?mother @ '', '' @ description ?mother
        @ ''. '' @ ''They were my '' @ relationship ?mother @ ''.'' @ style_suffix"
    by blast
  then have "enhancedPrompt ''beach day'' ?mother =
      ''beach day. The scene includes Mom, warm smile. They were my mother. Create this as a vintage dreamlike polaroid photograph with surreal, ethereal qualities, soft focus, nostalgic muted tones, and a touch of the uncanny.''"
    by (simp add: style_suffix_def)
  ultimately show ?thesis
    unfolding scenario_state e by simp
qed


end
